theory Spec2Isabelle
  imports Complex_Main "HOL-Library.AList"
begin

section \<open>Python values\<close>

text \<open>
  A Python float is a finite double (a rational number), an infinity or NaN. The model
  admits every rational as a finite float, which only enlarges the set of inputs.
\<close>

datatype pyfloat = Fin rat | PInf | NInf | NaN

text \<open>
  \<open>decimal.Decimal\<close> by value: a finite number, a signed infinity (\<open>True\<close> for the
  negative one) or a NaN, quiet or signalling. \<open>Dec 0\<close> is the only falsy Decimal.
\<close>

datatype decimal = Dec rat | DecInf bool | DecNaN

text \<open>
  What \<open>response.json()\<close> returns. An object is the dict in iteration order; \<open>get\<close>
  finds the first binding of a key.
\<close>

datatype json =
    JNull
  | JBool bool
  | JInt int
  | JFloat pyfloat
  | JStr string
  | JArr "json list"
  | JObj "(string \<times> json) list"

datatype value_error = NO_LIQUDITY | Unrecognised_method | Bad_literal

text \<open>
  Modelled from the spec: the exception classes of \<open>custom_exceptions\<close>, a module that
  is not among the sources. They have the names the modules import and the arguments the
  source passes to them (\<open>InvalidTokens None\<close> is \<open>InvalidTokens()\<close>); section 4.5 of the
  spec names the conditions they signal. \<open>ValueError NO_LIQUDITY\<close> is
  \<open>ValueError(NO_LIQUDITY)\<close>. The other constructors are the built-in exceptions the
  code can raise on a payload of the wrong shape.
\<close>

datatype exn =
    NoPositionsError
  | InvalidSolanaAddress string
  | InvalidTokens "string list option"
  | TransactionNotFoundError
  | ValueError value_error
  | TypeError
  | AttributeError
  | KeyError string
  | OverflowError
  | InvalidOperation
  | JSONDecodeError
  | RequestException

text \<open>
  Modelled from the spec: \<open>PriceInfo\<close> and \<open>TokenOverview\<close> of the module \<open>common\<close>, which
  is not among the sources, with the fields of section 3 of the spec and the values the
  source stores in them. \<open>PriceInfo(price, liquidity)\<close> has a liquidity that may be
  \<open>None\<close>. The \<open>symbol\<close> of a \<open>TokenOverview\<close> is the integer \<open>0\<close> in one provider and
  an unconverted JSON value in the other; its \<open>supply\<close> is the integer \<open>0\<close> or a Decimal.
\<close>

datatype PriceInfo = PriceInfo decimal "decimal option"

datatype number = IntNum int | DecNum decimal

record TokenOverview =
  price :: decimal
  symbol :: json
  decimals :: int
  lastTradeUnixTime :: int
  liquidity :: decimal
  "supply" :: number

text \<open>
  What the modules import and this repository's sources do not define: the address
  predicate of \<open>helpers\<close>, the constants of \<open>constants\<close>
  (\<open>DEX_SCREENER_TOKEN_URL\<close> is used only through \<open>.format(x)\<close>), and Python's parsers of
  numeric strings and its rounding of an integer to a double (\<open>None\<close> where they raise).
\<close>

record env =
  is_solana_address :: "string \<Rightarrow> bool"
  SOL_MINT :: string
  MULTI_PRICE_URL :: string
  DEX_SCREENER_TOKEN_URL :: "string \<Rightarrow> string"
  float_of_int :: "int \<Rightarrow> pyfloat option"
  float_of_str :: "string \<Rightarrow> pyfloat option"
  decimal_of_str :: "string \<Rightarrow> decimal option"
  int_of_str :: "string \<Rightarrow> int option"

definition then_do :: "exn + 'a \<Rightarrow> ('a \<Rightarrow> exn + 'b) \<Rightarrow> exn + 'b" where
  "then_do m f = (case m of Inl e \<Rightarrow> Inl e | Inr x \<Rightarrow> f x)"

fun py_truthy :: "json \<Rightarrow> bool" where
  "py_truthy JNull = False"
| "py_truthy (JBool b) = b"
| "py_truthy (JInt n) = (n \<noteq> 0)"
| "py_truthy (JFloat f) = (f \<noteq> Fin 0)"
| "py_truthy (JStr s) = (s \<noteq> [])"
| "py_truthy (JArr xs) = (xs \<noteq> [])"
| "py_truthy (JObj kvs) = (kvs \<noteq> [])"

text \<open>\<open>x.get(k, d)\<close>: only a dict has the method.\<close>

fun dict_get :: "json \<Rightarrow> string \<Rightarrow> json \<Rightarrow> exn + json" where
  "dict_get (JObj kvs) k d = Inr (case map_of kvs k of Some v \<Rightarrow> v | None \<Rightarrow> d)"
| "dict_get _ k d = Inl AttributeError"

text \<open>\<open>x[k]\<close> with a string \<open>k\<close>.\<close>

fun subscript :: "json \<Rightarrow> string \<Rightarrow> exn + json" where
  "subscript (JObj kvs) k = (case map_of kvs k of Some v \<Rightarrow> Inr v | None \<Rightarrow> Inl (KeyError k))"
| "subscript _ k = Inl TypeError"

fun is_substring :: "string \<Rightarrow> string \<Rightarrow> bool" where
  "is_substring s [] = (s = [])"
| "is_substring s (c # cs) = (take (length s) (c # cs) = s \<or> is_substring s cs)"

text \<open>\<open>k in x\<close> with a string \<open>k\<close>: a key of a dict, an element of a list, a substring.\<close>

fun py_in :: "string \<Rightarrow> json \<Rightarrow> exn + bool" where
  "py_in k (JObj kvs) = Inr (map_of kvs k \<noteq> None)"
| "py_in k (JArr xs) = Inr (List.member xs (JStr k))"
| "py_in k (JStr s) = Inr (is_substring k s)"
| "py_in k _ = Inl TypeError"

text \<open>\<open>for x in v\<close>: the elements of a list, the keys of a dict, the characters of a string.\<close>

fun py_iter :: "json \<Rightarrow> exn + json list" where
  "py_iter (JArr xs) = Inr xs"
| "py_iter (JObj kvs) = Inr (map (\<lambda>kv. JStr (fst kv)) kvs)"
| "py_iter (JStr s) = Inr (map (\<lambda>c. JStr [c]) s)"
| "py_iter _ = Inl TypeError"

fun py_items :: "json \<Rightarrow> exn + (string \<times> json) list" where
  "py_items (JObj kvs) = Inr kvs"
| "py_items _ = Inl AttributeError"

text \<open>
  \<open>Decimal\<close> of a list \<open>[sign, digits, exponent]\<close>, the list form of a Decimal tuple.
  The sign is the integer \<open>0\<close> or \<open>1\<close>; the exponent is an integer that fits a C
  \<open>ssize_t\<close>, or one of the strings \<open>F\<close> (infinity), \<open>n\<close> and \<open>N\<close> (the two NaNs); the
  digits are a list of integers from \<open>0\<close> to \<open>9\<close>, each looked at in turn. A \<open>bool\<close>
  counts as an integer. The checks are made in that order, and the number must be
  representable exactly: its exponent not below \<open>-1999999999999999997\<close> and its adjusted
  exponent (of a zero, its exponent) not above \<open>999999999999999999\<close>.
\<close>

datatype decimal_exponent = Exponent int | Infinite | QuietNaN | SignallingNaN

fun as_py_int :: "json \<Rightarrow> int option" where
  "as_py_int (JInt n) = Some n"
| "as_py_int (JBool b) = Some (if b then 1 else 0)"
| "as_py_int _ = None"

definition fits_c_long :: "int \<Rightarrow> bool" where
  "fits_c_long n = (- (2 ^ 63) \<le> n \<and> n < 2 ^ 63)"

definition decimal_sign :: "json \<Rightarrow> exn + bool" where
  "decimal_sign x =
     (case as_py_int x of
        None \<Rightarrow> Inl (ValueError Bad_literal)
      | Some n \<Rightarrow>
          if \<not> fits_c_long n then Inl OverflowError
          else if n = 0 then Inr False
          else if n = 1 then Inr True
          else Inl (ValueError Bad_literal))"

fun decimal_exponent_of :: "json \<Rightarrow> exn + decimal_exponent" where
  "decimal_exponent_of (JStr s) =
     (if s = ''F'' then Inr Infinite
      else if s = ''n'' then Inr QuietNaN
      else if s = ''N'' then Inr SignallingNaN
      else Inl (ValueError Bad_literal))"
| "decimal_exponent_of x =
     (case as_py_int x of
        None \<Rightarrow> Inl (ValueError Bad_literal)
      | Some n \<Rightarrow> if fits_c_long n then Inr (Exponent n) else Inl OverflowError)"

fun decimal_digits :: "json list \<Rightarrow> exn + nat list" where
  "decimal_digits [] = Inr []"
| "decimal_digits (x # xs) =
     (case as_py_int x of
        None \<Rightarrow> Inl (ValueError Bad_literal)
      | Some n \<Rightarrow>
          if \<not> fits_c_long n then Inl OverflowError
          else if n < 0 \<or> 9 < n then Inl (ValueError Bad_literal)
          else (case decimal_digits xs of Inl e \<Rightarrow> Inl e | Inr ds \<Rightarrow> Inr (nat n # ds)))"

fun decimal_coefficient :: "json \<Rightarrow> exn + nat list" where
  "decimal_coefficient (JArr xs) = decimal_digits xs"
| "decimal_coefficient _ = Inl (ValueError Bad_literal)"

definition finite_decimal :: "bool \<Rightarrow> nat list \<Rightarrow> int \<Rightarrow> exn + decimal" where
  "finite_decimal negative ds e =
     (let c = foldl (\<lambda>a d. 10 * a + d) 0 ds;
          n = length (dropWhile (\<lambda>d. d = 0) ds)
      in if e < - 1999999999999999997 then Inl InvalidOperation
         else if (if c = 0 then 999999999999999999 < e
                  else 999999999999999999 < e + int n - 1) then Inl InvalidOperation
         else Inr (Dec ((if negative then - 1 else 1) * of_nat c *
                        (if 0 \<le> e then 10 ^ nat e else 1 / 10 ^ nat (- e)))))"

fun decimal_of_sequence :: "json list \<Rightarrow> exn + decimal" where
  "decimal_of_sequence [s, d, e] =
     then_do (decimal_sign s) (\<lambda>negative.
     then_do (decimal_exponent_of e) (\<lambda>ex.
     then_do (decimal_coefficient d) (\<lambda>ds.
       case ex of
         Exponent n \<Rightarrow> finite_decimal negative ds n
       | Infinite \<Rightarrow> Inr (DecInf negative)
       | QuietNaN \<Rightarrow> Inr DecNaN
       | SignallingNaN \<Rightarrow> Inr DecNaN)))"
| "decimal_of_sequence _ = Inl (ValueError Bad_literal)"

fun Decimal :: "env \<Rightarrow> json \<Rightarrow> exn + decimal" where
  "Decimal env (JInt n) = Inr (Dec (of_int n))"
| "Decimal env (JBool b) = Inr (Dec (if b then 1 else 0))"
| "Decimal env (JFloat (Fin r)) = Inr (Dec r)"
| "Decimal env (JFloat PInf) = Inr (DecInf False)"
| "Decimal env (JFloat NInf) = Inr (DecInf True)"
| "Decimal env (JFloat NaN) = Inr DecNaN"
| "Decimal env (JStr s) =
     (case decimal_of_str env s of Some d \<Rightarrow> Inr d | None \<Rightarrow> Inl InvalidOperation)"
| "Decimal env (JArr xs) = decimal_of_sequence xs"
| "Decimal env JNull = Inl TypeError"
| "Decimal env (JObj kvs) = Inl TypeError"

fun py_float :: "env \<Rightarrow> json \<Rightarrow> exn + pyfloat" where
  "py_float env (JInt n) =
     (case float_of_int env n of Some f \<Rightarrow> Inr f | None \<Rightarrow> Inl OverflowError)"
| "py_float env (JBool b) = Inr (Fin (if b then 1 else 0))"
| "py_float env (JFloat f) = Inr f"
| "py_float env (JStr s) =
     (case float_of_str env s of Some f \<Rightarrow> Inr f | None \<Rightarrow> Inl (ValueError Bad_literal))"
| "py_float env _ = Inl TypeError"

fun py_int :: "env \<Rightarrow> json \<Rightarrow> exn + int" where
  "py_int env (JInt n) = Inr n"
| "py_int env (JBool b) = Inr (if b then 1 else 0)"
| "py_int env (JFloat (Fin r)) = Inr (if 0 \<le> r then \<lfloor>r\<rfloor> else \<lceil>r\<rceil>)"
| "py_int env (JFloat NaN) = Inl (ValueError Bad_literal)"
| "py_int env (JFloat _) = Inl OverflowError"
| "py_int env (JStr s) =
     (case int_of_str env s of Some n \<Rightarrow> Inr n | None \<Rightarrow> Inl (ValueError Bad_literal))"
| "py_int env _ = Inl TypeError"

text \<open>\<open>a > b\<close> on floats: false whenever NaN is involved.\<close>

fun float_gt :: "pyfloat \<Rightarrow> pyfloat \<Rightarrow> bool" where
  "float_gt (Fin a) (Fin b) = (b < a)"
| "float_gt PInf (Fin b) = True"
| "float_gt PInf NInf = True"
| "float_gt (Fin a) NInf = True"
| "float_gt _ _ = False"

fun join :: "string \<Rightarrow> string list \<Rightarrow> string" where
  "join sep [] = []"
| "join sep [x] = x"
| "join sep (x # y # ys) = x @ sep @ join sep (y # ys)"

definition py_upper :: "string \<Rightarrow> string" where
  "py_upper s =
     map (\<lambda>c. if 97 \<le> (of_char c :: nat) \<and> (of_char c :: nat) \<le> 122
               then char_of ((of_char c :: nat) - 32) else c) s"

section \<open>The HTTP transport\<close>

text \<open>
  A response is its status code and its body, \<open>None\<close> when the body is not JSON. The
  transport answers a request knowing the requests made before it; \<open>None\<close> is a request
  that raises instead of answering. An operation returns its result together with the
  requests it has made, in order. Request headers are left out.
\<close>

record response =
  status_code :: int
  body :: "json option"

datatype verb = GET | POST

type_synonym request = "verb \<times> string"

type_synonym transport = "request list \<Rightarrow> request \<Rightarrow> response option"

definition send :: "transport \<Rightarrow> request list \<Rightarrow> request \<Rightarrow> (exn + response) \<times> request list" where
  "send T sent req =
     (case T sent req of None \<Rightarrow> (Inl RequestException, sent @ [req])
      | Some resp \<Rightarrow> (Inr resp, sent @ [req]))"

definition response_json :: "response \<Rightarrow> exn + json" where
  "response_json resp = (case body resp of None \<Rightarrow> Inl JSONDecodeError | Some j \<Rightarrow> Inr j)"

section \<open>DexScreenerClient.find_largest_pool_with_sol\<close>

text \<open>The condition of the \<open>if\<close>; \<open>and\<close> does not evaluate its right side after a False.\<close>

definition pool_matches :: "env \<Rightarrow> string \<Rightarrow> json \<Rightarrow> exn + bool" where
  "pool_matches env address entry =
     then_do (dict_get entry ''baseToken'' (JObj [])) (\<lambda>base.
     then_do (dict_get base ''address'' JNull) (\<lambda>base_address.
       if base_address = JStr address then
         then_do (subscript entry ''quoteToken'') (\<lambda>quote.
         then_do (subscript quote ''address'') (\<lambda>quote_address.
           Inr (quote_address = JStr (SOL_MINT env))))
       else Inr False))"

definition liquidity_usd :: "env \<Rightarrow> json \<Rightarrow> exn + pyfloat" where
  "liquidity_usd env entry =
     then_do (dict_get entry ''liquidity'' (JObj [])) (\<lambda>l.
     then_do (dict_get l ''usd'' (JInt 0)) (py_float env))"

fun pool_loop :: "env \<Rightarrow> string \<Rightarrow> json list \<Rightarrow> json \<Rightarrow> pyfloat \<Rightarrow> exn + json" where
  "pool_loop env address [] max_entry max_liquidity_usd = Inr max_entry"
| "pool_loop env address (entry # rest) max_entry max_liquidity_usd =
     (case pool_matches env address entry of
        Inl e \<Rightarrow> Inl e
      | Inr False \<Rightarrow> pool_loop env address rest max_entry max_liquidity_usd
      | Inr True \<Rightarrow>
          (case liquidity_usd env entry of
             Inl e \<Rightarrow> Inl e
           | Inr l \<Rightarrow>
               if float_gt l max_liquidity_usd then pool_loop env address rest entry l
               else pool_loop env address rest max_entry max_liquidity_usd))"

definition find_largest_pool_with_sol :: "env \<Rightarrow> json \<Rightarrow> string \<Rightarrow> exn + json" where
  "find_largest_pool_with_sol env token_pairs address =
     then_do (py_iter token_pairs) (\<lambda>entries.
       pool_loop env address entries (JObj []) (Fin (- 1)))"

section \<open>DexScreenerClient\<close>

text \<open>
  The methods keep their names without the leading underscore. Both classes have a
  method \<open>fetch_token_overview\<close>: the one of this class is \<open>dex_fetch_token_overview\<close>.
\<close>

definition validate_token_address :: "env \<Rightarrow> string \<Rightarrow> exn + unit" where
  "validate_token_address env token_address =
     (if token_address = [] then Inl NoPositionsError
      else if \<not> is_solana_address env token_address
        then Inl (InvalidSolanaAddress token_address)
      else Inr ())"

fun validate_each :: "env \<Rightarrow> string list \<Rightarrow> exn + unit" where
  "validate_each env [] = Inr ()"
| "validate_each env (address # rest) =
     (case validate_token_address env address of
        Inl e \<Rightarrow> Inl e
      | Inr _ \<Rightarrow> validate_each env rest)"

definition validate_token_addresses :: "env \<Rightarrow> string list \<Rightarrow> exn + unit" where
  "validate_token_addresses env token_addresses =
     (if token_addresses = [] then Inl NoPositionsError
      else validate_each env token_addresses)"

definition validate_response :: "response \<Rightarrow> exn + unit" where
  "validate_response resp =
     (if status_code resp \<noteq> 200 then Inl (InvalidTokens None) else Inr ())"

definition dex_request :: "env \<Rightarrow> string \<Rightarrow> request" where
  "dex_request env token_address = (GET, DEX_SCREENER_TOKEN_URL env token_address)"

definition call_api ::
  "env \<Rightarrow> transport \<Rightarrow> request list \<Rightarrow> string \<Rightarrow> (exn + json) \<times> request list" where
  "call_api env T sent token_address =
     (case validate_token_address env token_address of
        Inl e \<Rightarrow> (Inl e, sent)
      | Inr _ \<Rightarrow>
          (case send T sent (dex_request env token_address) of
             (Inl e, sent') \<Rightarrow> (Inl e, sent')
           | (Inr api_response, sent') \<Rightarrow>
               (then_do (validate_response api_response) (\<lambda>_. response_json api_response),
                sent')))"

definition call_api_bulk ::
  "env \<Rightarrow> transport \<Rightarrow> request list \<Rightarrow> string list \<Rightarrow> (exn + json) \<times> request list" where
  "call_api_bulk env T sent token_addresses =
     (if token_addresses = [] then (Inl NoPositionsError, sent)
      else
        (case validate_token_addresses env token_addresses of
           Inl e \<Rightarrow> (Inl e, sent)
         | Inr _ \<Rightarrow>
             (case send T sent (dex_request env (join '','' token_addresses)) of
                (Inl e, sent') \<Rightarrow> (Inl e, sent')
              | (Inr api_response, sent') \<Rightarrow>
                  (then_do (validate_response api_response) (\<lambda>_. response_json api_response),
                   sent'))))"

text \<open>
  \<open>Decimal(final_data["liquidity"].get("usd", 0)) if "liquidity" in final_data else None\<close>
\<close>

definition pool_liquidity :: "env \<Rightarrow> json \<Rightarrow> exn + decimal option" where
  "pool_liquidity env final_data =
     then_do (py_in ''liquidity'' final_data) (\<lambda>present.
       if present then
         then_do (subscript final_data ''liquidity'') (\<lambda>l.
         then_do (dict_get l ''usd'' (JInt 0)) (\<lambda>usd.
         then_do (Decimal env usd) (\<lambda>d. Inr (Some d))))
       else Inr None)"

text \<open>The branch of \<open>fetch_prices_dex\<close> taken when the response has pairs.\<close>

definition price_info_of_pairs :: "env \<Rightarrow> json \<Rightarrow> string \<Rightarrow> exn + PriceInfo" where
  "price_info_of_pairs env pairs address =
     then_do (find_largest_pool_with_sol env pairs address) (\<lambda>final_data.
     then_do (pool_liquidity env final_data) (\<lambda>liquidity.
     then_do (dict_get final_data ''priceUsd'' (JInt 0)) (\<lambda>price_usd.
     then_do (Decimal env price_usd) (\<lambda>price.
       Inr (PriceInfo price liquidity)))))"

type_synonym prices = "(string \<times> PriceInfo) list"

fun fetch_prices_dex_loop ::
  "env \<Rightarrow> transport \<Rightarrow> string list \<Rightarrow> prices \<Rightarrow> string list \<Rightarrow> request list
     \<Rightarrow> (exn + prices \<times> string list) \<times> request list" where
  "fetch_prices_dex_loop env T [] prices invalid_token_list sent =
     (Inr (prices, invalid_token_list), sent)"
| "fetch_prices_dex_loop env T (address # rest) prices invalid_token_list sent =
     (case call_api env T sent address of
        (Inl e, sent') \<Rightarrow> (Inl e, sent')
      | (Inr api_response, sent') \<Rightarrow>
          (case dict_get api_response ''pairs'' JNull of
             Inl e \<Rightarrow> (Inl e, sent')
           | Inr pairs \<Rightarrow>
               if py_truthy pairs then
                 (case price_info_of_pairs env pairs address of
                    Inl e \<Rightarrow> (Inl e, sent')
                  | Inr info \<Rightarrow>
                      fetch_prices_dex_loop env T rest
                        (AList.update address info prices) invalid_token_list sent')
               else
                 fetch_prices_dex_loop env T rest
                   prices (invalid_token_list @ [address]) sent'))"

definition fetch_prices_dex ::
  "env \<Rightarrow> transport \<Rightarrow> string list \<Rightarrow> (exn + prices) \<times> request list" where
  "fetch_prices_dex env T token_addresses =
     (if token_addresses = [] then (Inl NoPositionsError, [])
      else
        (case fetch_prices_dex_loop env T token_addresses [] [] [] of
           (Inl e, sent) \<Rightarrow> (Inl e, sent)
         | (Inr (prices, invalid_token_list), sent) \<Rightarrow>
             if invalid_token_list \<noteq> [] then (Inl (InvalidTokens (Some invalid_token_list)), sent)
             else (Inr prices, sent)))"

text \<open>The construction of the overview from the selected pair, once its liquidity is known.\<close>

definition overview_of_pool :: "env \<Rightarrow> json \<Rightarrow> decimal \<Rightarrow> exn + TokenOverview" where
  "overview_of_pool env final_data liq =
     then_do (then_do (dict_get final_data ''priceUsd'' (JInt 0)) (Decimal env)) (\<lambda>p.
     then_do (dict_get final_data ''symbol'' (JStr [])) (\<lambda>sym.
     then_do (then_do (dict_get final_data ''decimals'' (JInt 0)) (py_int env)) (\<lambda>dec.
     then_do (then_do (dict_get final_data ''lastTradeUnixTime'' (JInt 0)) (py_int env)) (\<lambda>t.
     then_do (then_do (dict_get final_data ''supply'' (JInt 0)) (Decimal env)) (\<lambda>sup.
       Inr \<lparr>price = p, symbol = sym, decimals = dec, lastTradeUnixTime = t,
            liquidity = liq, supply = DecNum sup\<rparr>)))))"

text \<open>\<open>if not liquidity\<close> raises on \<open>None\<close> and on a zero Decimal.\<close>

definition dex_overview_of_pairs :: "env \<Rightarrow> json \<Rightarrow> string \<Rightarrow> exn + TokenOverview" where
  "dex_overview_of_pairs env pairs address =
     then_do (find_largest_pool_with_sol env pairs address) (\<lambda>final_data.
     then_do (pool_liquidity env final_data) (\<lambda>liquidity_opt.
       case liquidity_opt of
         None \<Rightarrow> Inl (ValueError NO_LIQUDITY)
       | Some liq \<Rightarrow>
           if liq = Dec 0 then Inl (ValueError NO_LIQUDITY)
           else overview_of_pool env final_data liq))"

definition dex_fetch_token_overview ::
  "env \<Rightarrow> transport \<Rightarrow> string \<Rightarrow> (exn + TokenOverview) \<times> request list" where
  "dex_fetch_token_overview env T address =
     (if \<not> is_solana_address env address then (Inl (InvalidSolanaAddress address), [])
      else
        (case call_api env T [] address of
           (Inl e, sent) \<Rightarrow> (Inl e, sent)
         | (Inr api_response, sent) \<Rightarrow>
             (then_do (dict_get api_response ''pairs'' JNull) (\<lambda>pairs.
                if py_truthy pairs then dex_overview_of_pairs env pairs address
                else Inl TransactionNotFoundError),
              sent)))"

section \<open>BirdEyeClient\<close>

definition make_api_call ::
  "transport \<Rightarrow> request list \<Rightarrow> string \<Rightarrow> string \<Rightarrow> (exn + response) \<times> request list" where
  "make_api_call T sent method query_url =
     (if py_upper method = ''GET'' then send T sent (GET, query_url)
      else if py_upper method = ''POST'' then send T sent (POST, query_url)
      else (Inl (ValueError Unrecognised_method), sent))"

definition has_value_and_liquidity :: "json \<Rightarrow> exn + bool" where
  "has_value_and_liquidity details =
     then_do (py_in ''value'' details) (\<lambda>v.
       if v then py_in ''liquidity'' details else Inr False)"

definition price_info_of_details :: "env \<Rightarrow> json \<Rightarrow> exn + PriceInfo" where
  "price_info_of_details env details =
     then_do (then_do (subscript details ''value'') (Decimal env)) (\<lambda>p.
     then_do (then_do (subscript details ''liquidity'') (Decimal env)) (\<lambda>l.
       Inr (PriceInfo p (Some l))))"

fun fetch_prices_loop ::
  "env \<Rightarrow> (string \<times> json) list \<Rightarrow> prices \<Rightarrow> string list \<Rightarrow> exn + prices \<times> string list" where
  "fetch_prices_loop env [] price_details invalid_token_list =
     Inr (price_details, invalid_token_list)"
| "fetch_prices_loop env ((address, details) # rest) price_details invalid_token_list =
     (case has_value_and_liquidity details of
        Inl e \<Rightarrow> Inl e
      | Inr True \<Rightarrow>
          (case price_info_of_details env details of
             Inl e \<Rightarrow> Inl e
           | Inr info \<Rightarrow>
               fetch_prices_loop env rest
                 (AList.update address info price_details) invalid_token_list)
      | Inr False \<Rightarrow>
          fetch_prices_loop env rest price_details (invalid_token_list @ [address]))"

definition prices_of_response :: "env \<Rightarrow> response \<Rightarrow> exn + prices" where
  "prices_of_response env api_response =
     then_do (response_json api_response) (\<lambda>j.
     then_do (dict_get j ''data'' (JObj [])) (\<lambda>data.
     then_do (py_items data) (\<lambda>items.
     then_do (fetch_prices_loop env items [] []) (\<lambda>(price_details, invalid_token_list).
       if invalid_token_list \<noteq> [] then Inl (InvalidTokens (Some invalid_token_list))
       else Inr price_details))))"

definition fetch_prices_url :: "env \<Rightarrow> string list \<Rightarrow> string" where
  "fetch_prices_url env token_addresses =
     MULTI_PRICE_URL env @ ''?include_liquidity=true&list_address=''
       @ join ''%2C'' token_addresses"

definition fetch_prices ::
  "env \<Rightarrow> transport \<Rightarrow> string list \<Rightarrow> (exn + prices) \<times> request list" where
  "fetch_prices env T token_addresses =
     (if token_addresses = [] then (Inl NoPositionsError, [])
      else
        (case make_api_call T [] ''GET'' (fetch_prices_url env token_addresses) of
           (Inl e, sent) \<Rightarrow> (Inl e, sent)
         | (Inr api_response, sent) \<Rightarrow>
             if status_code api_response = 200
             then (prices_of_response env api_response, sent)
             else (Inl (InvalidTokens None), sent)))"

definition overview_of_token_data :: "env \<Rightarrow> string \<Rightarrow> json \<Rightarrow> exn + TokenOverview" where
  "overview_of_token_data env address token_data =
     (if \<not> py_truthy token_data then Inl (InvalidTokens (Some [address]))
      else
        then_do (dict_get token_data ''liquidity'' JNull) (\<lambda>l.
          if \<not> py_truthy l then Inl (ValueError NO_LIQUDITY)
          else
            then_do (then_do (dict_get token_data ''value'' (JInt 0)) (Decimal env)) (\<lambda>p.
            then_do (then_do (dict_get token_data ''liquidity'' JNull) (Decimal env)) (\<lambda>liq.
              Inr \<lparr>price = p, symbol = JInt 0, decimals = 0, lastTradeUnixTime = 0,
                   liquidity = liq, supply = IntNum 0\<rparr>))))"

definition overview_of_response :: "env \<Rightarrow> string \<Rightarrow> response \<Rightarrow> exn + TokenOverview" where
  "overview_of_response env address api_response =
     then_do (response_json api_response) (\<lambda>j.
     then_do (subscript j ''data'') (\<lambda>data.
     then_do (dict_get data address (JObj [])) (\<lambda>token_data.
       overview_of_token_data env address token_data)))"

definition overview_url :: "env \<Rightarrow> string \<Rightarrow> string" where
  "overview_url env address =
     MULTI_PRICE_URL env @ ''?include_liquidity=true&include_decimals=true&list_address=''
       @ address"

definition fetch_token_overview ::
  "env \<Rightarrow> transport \<Rightarrow> string \<Rightarrow> (exn + TokenOverview) \<times> request list" where
  "fetch_token_overview env T address =
     (if \<not> is_solana_address env address then (Inl (InvalidSolanaAddress address), [])
      else
        (case make_api_call T [] ''GET'' (overview_url env address) of
           (Inl e, sent) \<Rightarrow> (Inl e, sent)
         | (Inr api_response, sent) \<Rightarrow>
             if status_code api_response = 200
             then (overview_of_response env address api_response, sent)
             else (Inl (InvalidTokens (Some [address])), sent)))"

section \<open>Definitions used to state the properties\<close>

text \<open>The records the selector's condition accepts, in input order.\<close>

definition matching_pools :: "env \<Rightarrow> string \<Rightarrow> json list \<Rightarrow> json list" where
  "matching_pools env address entries =
     filter (\<lambda>entry. pool_matches env address entry = Inr True) entries"

text \<open>
  The value of \<open>pairs\<close> in the 200 response to the request for the address, made after
  the requests \<open>sent\<close>, when there is one.
\<close>

definition dex_pairs :: "env \<Rightarrow> transport \<Rightarrow> request list \<Rightarrow> string \<Rightarrow> json option" where
  "dex_pairs env T sent address =
     (case T sent (dex_request env address) of
        None \<Rightarrow> None
      | Some resp \<Rightarrow>
          if status_code resp = 200 then
            (case body resp of
               None \<Rightarrow> None
             | Some j \<Rightarrow> (case dict_get j ''pairs'' JNull of Inl e \<Rightarrow> None | Inr p \<Rightarrow> Some p))
          else None)"

text \<open>
  The addresses whose response carries no pairs, in input order, when the addresses are
  requested one after the other.
\<close>

fun rejected :: "env \<Rightarrow> transport \<Rightarrow> request list \<Rightarrow> string list \<Rightarrow> string list" where
  "rejected env T sent [] = []"
| "rejected env T sent (address # rest) =
     (case dex_pairs env T sent address of
        None \<Rightarrow> rejected env T (sent @ [dex_request env address]) rest
      | Some pairs \<Rightarrow>
          if py_truthy pairs then rejected env T (sent @ [dex_request env address]) rest
          else address # rejected env T (sent @ [dex_request env address]) rest)"

text \<open>
  The record \<open>data[address]\<close> of the 200 response to the batch provider's overview
  request, when there is one.
\<close>

definition fetched_token_data :: "env \<Rightarrow> transport \<Rightarrow> string \<Rightarrow> json option" where
  "fetched_token_data env T address =
     (case T [] (GET, overview_url env address) of
        None \<Rightarrow> None
      | Some resp \<Rightarrow>
          if status_code resp = 200 then
            (case body resp of
               None \<Rightarrow> None
             | Some j \<Rightarrow>
                 (case subscript j ''data'' of
                    Inl e \<Rightarrow> None
                  | Inr data \<Rightarrow>
                      (case dict_get data address (JObj []) of
                         Inl e \<Rightarrow> None
                       | Inr token_data \<Rightarrow> Some token_data)))
          else None)"

text \<open>
  The spec's UpstreamError: the source has no such class and raises \<open>InvalidTokens()\<close>,
  without a token list, where the spec names it.
\<close>

definition UpstreamError :: exn where
  "UpstreamError = InvalidTokens None"

definition SOL :: string where
  "SOL = ''So11111111111111111111111111111111111111112''"

text \<open>
  An environment for evaluating the model on examples: every non-empty address except
  \<open>bad\<close> is valid, the parsers know the few literals the examples use, and an integer
  is converted to a float exactly up to \<open>2 ^ 53\<close>, which is all the examples need.
\<close>

definition example_env :: env where
  "example_env =
     \<lparr>is_solana_address = (\<lambda>s. s \<noteq> [] \<and> s \<noteq> ''bad''),
      SOL_MINT = SOL,
      MULTI_PRICE_URL = ''https://public-api.birdeye.so/defi/multi_price'',
      DEX_SCREENER_TOKEN_URL = (\<lambda>a. ''https://api.dexscreener.com/latest/dex/tokens/'' @ a),
      float_of_int = (\<lambda>n. if \<bar>n\<bar> \<le> 2 ^ 53 then Some (Fin (of_int n)) else None),
      float_of_str = map_of [(''0'', Fin 0), (''1.5'', Fin (3 / 2))],
      decimal_of_str = map_of [(''0'', Dec 0), (''1.5'', Dec (3 / 2))],
      int_of_str = map_of [(''0'', 0), (''9'', 9)]\<rparr>"

text \<open>A raw trading-pair record with the given pair address, base, quote and liquidity.\<close>

definition pair_record :: "string \<Rightarrow> string \<Rightarrow> string \<Rightarrow> json \<Rightarrow> json" where
  "pair_record pair_address base quote usd =
     JObj [(''pairAddress'', JStr pair_address),
           (''baseToken'', JObj [(''address'', JStr base)]),
           (''quoteToken'', JObj [(''address'', JStr quote)]),
           (''liquidity'', JObj [(''usd'', usd)]),
           (''priceUsd'', JStr ''1.5'')]"

text \<open>A transport that answers every request with the same response.\<close>

definition always :: "int \<Rightarrow> json \<Rightarrow> transport" where
  "always code j = (\<lambda>sent req. Some \<lparr>status_code = code, body = Some j\<rparr>)"

text \<open>A transport that answers each request by its URL, and with status 500 otherwise.\<close>

definition by_url :: "(string \<times> json) list \<Rightarrow> transport" where
  "by_url answers =
     (\<lambda>sent req. case map_of answers (snd req) of
        Some j \<Rightarrow> Some \<lparr>status_code = 200, body = Some j\<rparr>
      | None \<Rightarrow> Some \<lparr>status_code = 500, body = None\<rparr>)"

text \<open>The batch provider's payload for one address.\<close>

definition one_token :: "string \<Rightarrow> json \<Rightarrow> json \<Rightarrow> json" where
  "one_token address v l =
     JObj [(''data'', JObj [(address, JObj [(''value'', v), (''liquidity'', l)])])]"

text \<open>\<open>InvalidTokens\<close> raised with a token list.\<close>

fun carries_tokens :: "exn \<Rightarrow> bool" where
  "carries_tokens (InvalidTokens (Some tokens)) = True"
| "carries_tokens _ = False"

text \<open>
  A per-token upstream that knows two tokens: \<open>A\<close>, without pairs, and \<open>B\<close>, with one
  pair quoted in the native asset. Every other request is answered with status 500.
\<close>

definition no_pairs_for_A :: transport where
  "no_pairs_for_A =
     by_url [(DEX_SCREENER_TOKEN_URL example_env ''A'', JObj [(''pairs'', JArr [])]),
             (DEX_SCREENER_TOKEN_URL example_env ''B'',
                JObj [(''pairs'', JArr [pair_record ''P0'' ''B'' SOL (JFloat (Fin 7))])])]"

section \<open>Evaluating the examples\<close>

lemma example_env_simps:
  "SOL_MINT example_env = SOL"
  "is_solana_address example_env s = (s \<noteq> [] \<and> s \<noteq> ''bad'')"
  "MULTI_PRICE_URL example_env = ''https://public-api.birdeye.so/defi/multi_price''"
  "DEX_SCREENER_TOKEN_URL example_env a = ''https://api.dexscreener.com/latest/dex/tokens/'' @ a"
  "decimal_of_str example_env = map_of [(''0'', Dec 0), (''1.5'', Dec (3 / 2))]"
  by (simp_all add: example_env_def)

lemma pool_matches_pair_record:
  "pool_matches env a (pair_record p b q u) = Inr (b = a \<and> q = SOL_MINT env)"
  by (simp add: pool_matches_def pair_record_def then_do_def)

lemma liquidity_usd_pair_record:
  "liquidity_usd env (pair_record p b q u) = py_float env u"
  by (simp add: liquidity_usd_def pair_record_def then_do_def)

lemma SOL_neq_OTHER: "SOL \<noteq> ''OTHER''" "''OTHER'' \<noteq> SOL"
  by (simp_all add: SOL_def)

section \<open>The pool selector\<close>

lemma float_gt_irrefl: "\<not> float_gt l l" by (cases l) simp_all
lemma float_gt_trans: "float_gt a b \<Longrightarrow> float_gt b c \<Longrightarrow> float_gt a c"
  by (cases a; cases b; cases c) simp_all
lemma float_gt_asym: "float_gt a b \<Longrightarrow> \<not> float_gt b a"
  by (cases a; cases b) simp_all
lemma float_not_gt_below: "\<not> float_gt l m \<Longrightarrow> float_gt r m \<Longrightarrow> \<not> float_gt l r"
  by (cases l; cases m; cases r) simp_all

lemma pool_loop_result:
  "pool_loop env a ps me m = Inr r \<Longrightarrow>
   (r = me \<and> (\<forall>e\<in>set (matching_pools env a ps). \<forall>l. liquidity_usd env e = Inr l \<longrightarrow> \<not> float_gt l m))
   \<or> (r \<in> set (matching_pools env a ps) \<and>
      (\<exists>l. liquidity_usd env r = Inr l \<and> float_gt l m \<and>
         (\<forall>e\<in>set (matching_pools env a ps). \<forall>l'. liquidity_usd env e = Inr l' \<longrightarrow> \<not> float_gt l' l)))"
proof (induction ps arbitrary: me m)
  case Nil
  then show ?case by (simp add: matching_pools_def)
next
  case (Cons entry rest)
  show ?case
  proof (cases "pool_matches env a entry")
    case (Inl e)
    with Cons.prems show ?thesis by simp
  next
    case (Inr b)
    show ?thesis
    proof (cases b)
      case False
      with Inr Cons.prems have "pool_loop env a rest me m = Inr r" by simp
      from Cons.IH[OF this] Inr False show ?thesis by (simp add: matching_pools_def)
    next
      case True
      with Inr have pm: "pool_matches env a entry = Inr True" by simp
      show ?thesis
      proof (cases "liquidity_usd env entry")
        case (Inl e)
        with pm Cons.prems show ?thesis by simp
      next
        case (Inr l)
        show ?thesis
        proof (cases "float_gt l m")
          case gt: True
          with pm Inr Cons.prems have "pool_loop env a rest entry l = Inr r" by simp
          from Cons.IH[OF this] show ?thesis
          proof
            assume h: "r = entry \<and> (\<forall>e\<in>set (matching_pools env a rest). \<forall>l'. liquidity_usd env e = Inr l' \<longrightarrow> \<not> float_gt l' l)"
            then show ?thesis using pm Inr gt float_gt_irrefl
              by (auto simp: matching_pools_def)
          next
            assume h: "r \<in> set (matching_pools env a rest) \<and>
      (\<exists>k. liquidity_usd env r = Inr k \<and> float_gt k l \<and>
         (\<forall>e\<in>set (matching_pools env a rest). \<forall>l'. liquidity_usd env e = Inr l' \<longrightarrow> \<not> float_gt l' k))"
            then show ?thesis using pm Inr gt float_gt_trans[of _ l m] float_gt_asym
              by (auto simp: matching_pools_def)
          qed
        next
          case ngt: False
          with pm Inr Cons.prems have "pool_loop env a rest me m = Inr r" by simp
          from Cons.IH[OF this] show ?thesis
            using pm Inr ngt float_not_gt_below[of l m]
            by (auto simp: matching_pools_def)
        qed
      qed
    qed
  qed
qed

lemma pool_loop_returns:
  "\<forall>e\<in>set ps. \<exists>b. pool_matches env a e = Inr b \<Longrightarrow>
   \<forall>e\<in>set (matching_pools env a ps). \<exists>l. liquidity_usd env e = Inr l \<Longrightarrow>
   \<exists>r. pool_loop env a ps me m = Inr r"
proof (induction ps arbitrary: me m)
  case Nil
  show ?case by simp
next
  case (Cons entry rest)
  from Cons.prems(1) obtain b where b: "pool_matches env a entry = Inr b" by auto
  from Cons.prems have rest: "\<forall>e\<in>set rest. \<exists>b. pool_matches env a e = Inr b"
    "\<forall>e\<in>set (matching_pools env a rest). \<exists>l. liquidity_usd env e = Inr l"
    by (auto simp: matching_pools_def)
  show ?case
  proof (cases b)
    case False
    with b Cons.IH[OF rest] show ?thesis by simp
  next
    case True
    with b Cons.prems(2) obtain l where "liquidity_usd env entry = Inr l"
      by (auto simp: matching_pools_def)
    with b True Cons.IH[OF rest] show ?thesis by simp
  qed
qed

lemma pool_loop_prefix:
  "\<forall>x\<in>set xs. \<exists>b. pool_matches env a x = Inr b \<Longrightarrow>
   \<forall>x\<in>set (matching_pools env a xs). \<exists>k. liquidity_usd env x = Inr k \<and> float_gt l k \<Longrightarrow>
   float_gt l m \<Longrightarrow>
   \<exists>me' m'. float_gt l m' \<and> pool_loop env a (xs @ rest) me m = pool_loop env a rest me' m'"
proof (induction xs arbitrary: me m)
  case Nil
  then show ?case by auto
next
  case (Cons x xs)
  from Cons.prems(1) obtain b where b: "pool_matches env a x = Inr b" by auto
  from Cons.prems have tl: "\<forall>x\<in>set xs. \<exists>b. pool_matches env a x = Inr b"
    "\<forall>x\<in>set (matching_pools env a xs). \<exists>k. liquidity_usd env x = Inr k \<and> float_gt l k"
    by (auto simp: matching_pools_def)
  show ?case
  proof (cases b)
    case False
    with b Cons.IH[OF tl Cons.prems(3)] show ?thesis by simp
  next
    case True
    with b Cons.prems(2) obtain k where k: "liquidity_usd env x = Inr k" "float_gt l k"
      by (auto simp: matching_pools_def)
    show ?thesis
    proof (cases "float_gt k m")
      case True
      with b \<open>b\<close> k Cons.IH[OF tl k(2), of x] show ?thesis by simp
    next
      case False
      with b \<open>b\<close> k Cons.IH[OF tl Cons.prems(3), of me] show ?thesis by simp
    qed
  qed
qed

lemma pool_loop_suffix:
  "\<forall>y\<in>set ys. \<exists>b. pool_matches env a y = Inr b \<Longrightarrow>
   \<forall>y\<in>set (matching_pools env a ys). \<exists>k. liquidity_usd env y = Inr k \<and> \<not> float_gt k l \<Longrightarrow>
   pool_loop env a ys e l = Inr e"
proof (induction ys)
  case Nil
  show ?case by simp
next
  case (Cons y ys)
  from Cons.prems(1) obtain b where b: "pool_matches env a y = Inr b" by auto
  from Cons.prems have tl: "\<forall>y\<in>set ys. \<exists>b. pool_matches env a y = Inr b"
    "\<forall>y\<in>set (matching_pools env a ys). \<exists>k. liquidity_usd env y = Inr k \<and> \<not> float_gt k l"
    by (auto simp: matching_pools_def)
  show ?case
  proof (cases b)
    case False
    with b Cons.IH[OF tl] show ?thesis by simp
  next
    case True
    with b Cons.prems(2) obtain k where "liquidity_usd env y = Inr k" "\<not> float_gt k l"
      by (auto simp: matching_pools_def)
    with b True Cons.IH[OF tl] show ?thesis by simp
  qed
qed

text \<open>
  Claim C3, as the code has it. Whenever the condition and the float conversion raise on
  no record, \<open>find_largest_pool_with_sol\<close> returns. Whatever it returns is either the
  empty record \<open>{}\<close>, and then no matching record has a liquidity above the initial
  running maximum \<open>-1\<close>, or a record of the input whose \<open>baseToken.address\<close> is the token
  and whose \<open>quoteToken.address\<close> is \<open>SOL_MINT\<close>, whose liquidity (read as a float) is
  above \<open>-1\<close> and is exceeded by no matching record. So a record failing either condition
  is never returned, and with no matching record the result is \<open>{}\<close>.
\<close>

theorem find_largest_pool_with_sol_maximal:
  "((\<forall>e\<in>set entries. \<exists>b. pool_matches env address e = Inr b) \<and>
    (\<forall>e\<in>set (matching_pools env address entries). \<exists>l. liquidity_usd env e = Inr l)
      \<longrightarrow> (\<exists>r. find_largest_pool_with_sol env (JArr entries) address = Inr r))
   \<and> (\<forall>r. find_largest_pool_with_sol env (JArr entries) address = Inr r \<longrightarrow>
        (r = JObj [] \<and>
           (\<forall>e\<in>set (matching_pools env address entries).
              \<forall>l. liquidity_usd env e = Inr l \<longrightarrow> \<not> float_gt l (Fin (- 1))))
        \<or> (r \<in> set (matching_pools env address entries) \<and>
            (\<exists>l. liquidity_usd env r = Inr l \<and> float_gt l (Fin (- 1)) \<and>
               (\<forall>e\<in>set (matching_pools env address entries).
                  \<forall>l'. liquidity_usd env e = Inr l' \<longrightarrow> \<not> float_gt l' l))))"
proof (intro conjI impI allI)
  assume "(\<forall>e\<in>set entries. \<exists>b. pool_matches env address e = Inr b) \<and>
    (\<forall>e\<in>set (matching_pools env address entries). \<exists>l. liquidity_usd env e = Inr l)"
  then show "\<exists>r. find_largest_pool_with_sol env (JArr entries) address = Inr r"
    using pool_loop_returns[of entries env address "JObj []" "Fin (- 1)"]
    by (simp add: find_largest_pool_with_sol_def then_do_def)
next
  fix r
  assume "find_largest_pool_with_sol env (JArr entries) address = Inr r"
  then have "pool_loop env address entries (JObj []) (Fin (- 1)) = Inr r"
    by (simp add: find_largest_pool_with_sol_def then_do_def)
  from pool_loop_result[OF this]
  show "(r = JObj [] \<and>
           (\<forall>e\<in>set (matching_pools env address entries).
              \<forall>l. liquidity_usd env e = Inr l \<longrightarrow> \<not> float_gt l (Fin (- 1))))
        \<or> (r \<in> set (matching_pools env address entries) \<and>
            (\<exists>l. liquidity_usd env r = Inr l \<and> float_gt l (Fin (- 1)) \<and>
               (\<forall>e\<in>set (matching_pools env address entries).
                  \<forall>l'. liquidity_usd env e = Inr l' \<longrightarrow> \<not> float_gt l' l)))" .
qed

theorem find_largest_pool_with_sol_maximal_witness:
  "find_largest_pool_with_sol example_env
     (JArr [pair_record ''P0'' ''T'' SOL (JFloat (Fin 5)),
            pair_record ''P1'' ''T'' SOL (JFloat (Fin 9)),
            pair_record ''P2'' ''T'' ''OTHER'' (JFloat (Fin 100))]) ''T''
     = Inr (pair_record ''P1'' ''T'' SOL (JFloat (Fin 9)))
   \<and> pair_record ''P1'' ''T'' SOL (JFloat (Fin 9))
       \<in> set (matching_pools example_env ''T''
           [pair_record ''P0'' ''T'' SOL (JFloat (Fin 5)),
            pair_record ''P1'' ''T'' SOL (JFloat (Fin 9)),
            pair_record ''P2'' ''T'' ''OTHER'' (JFloat (Fin 100))])"
proof -
  let ?ps = "[pair_record ''P0'' ''T'' SOL (JFloat (Fin 5)),
            pair_record ''P1'' ''T'' SOL (JFloat (Fin 9)),
            pair_record ''P2'' ''T'' ''OTHER'' (JFloat (Fin 100))]"
  have h: "find_largest_pool_with_sol example_env (JArr ?ps) ''T''
           = Inr (pair_record ''P1'' ''T'' SOL (JFloat (Fin 9)))"
    by (simp add: find_largest_pool_with_sol_def then_do_def pool_matches_pair_record
        liquidity_usd_pair_record example_env_simps SOL_neq_OTHER)
  have ne: "pair_record ''P1'' ''T'' SOL (JFloat (Fin 9)) \<noteq> JObj []"
    by (simp add: pair_record_def)
  from find_largest_pool_with_sol_maximal[of ?ps example_env "''T''"] h ne
  show ?thesis by blast
qed

text \<open>
  Claim C3 as stated quantifies over every list of records: a single matching record
  whose liquidity is \<open>-5.0\<close> is not above the initial maximum \<open>-1\<close>, and the selector
  returns \<open>{}\<close> although a matching record exists.
\<close>

theorem find_largest_pool_with_sol_negative_liquidity:
  "pool_matches example_env ''T'' (pair_record ''P0'' ''T'' SOL (JFloat (Fin (- 5)))) = Inr True
   \<and> liquidity_usd example_env (pair_record ''P0'' ''T'' SOL (JFloat (Fin (- 5)))) = Inr (Fin (- 5))
   \<and> find_largest_pool_with_sol example_env
       (JArr [pair_record ''P0'' ''T'' SOL (JFloat (Fin (- 5)))]) ''T'' = Inr (JObj [])"
  by (simp add: find_largest_pool_with_sol_def then_do_def pool_matches_pair_record
      liquidity_usd_pair_record example_env_simps)

text \<open>
  Claim C4, as the code has it. Take a list on which the selector's condition raises on
  no record and the float conversion raises on no matching record. Among its matching
  records, the first one in input order that reaches the maximal liquidity is returned,
  because the comparison with the running maximum is the strict \<open>>\<close>, whenever that
  liquidity is a possible real liquidity, one above the initial running maximum \<open>-1\<close>.
  Here \<open>entry\<close> is that record: every matching record before it has a smaller
  liquidity and no matching record after it has a larger one (equal ones are the ties).
\<close>

theorem find_largest_pool_with_sol_first_of_ties:
  assumes cond: "\<forall>x\<in>set (before @ after). \<exists>b. pool_matches env address x = Inr b"
    and entry: "pool_matches env address entry = Inr True"
    and liq: "liquidity_usd env entry = Inr l"
    and real: "float_gt l (Fin (- 1))"
    and smaller: "\<forall>x\<in>set (matching_pools env address before).
                    \<exists>k. liquidity_usd env x = Inr k \<and> float_gt l k"
    and not_larger: "\<forall>y\<in>set (matching_pools env address after).
                    \<exists>k. liquidity_usd env y = Inr k \<and> \<not> float_gt k l"
  shows "find_largest_pool_with_sol env (JArr (before @ entry # after)) address = Inr entry"
proof -
  from cond have b: "\<forall>x\<in>set before. \<exists>b. pool_matches env address x = Inr b"
    and a: "\<forall>x\<in>set after. \<exists>b. pool_matches env address x = Inr b" by auto
  from pool_loop_prefix[OF b smaller real, of "entry # after" "JObj []"]
  obtain me' m' where m': "float_gt l m'"
    and eq: "pool_loop env address (before @ entry # after) (JObj []) (Fin (- 1))
             = pool_loop env address (entry # after) me' m'" by blast
  have "pool_loop env address (entry # after) me' m' = pool_loop env address after entry l"
    using entry liq m' by simp
  also have "\<dots> = Inr entry" by (rule pool_loop_suffix[OF a not_larger])
  finally show ?thesis using eq by (simp add: find_largest_pool_with_sol_def then_do_def)
qed

theorem find_largest_pool_with_sol_first_of_ties_witness:
  "find_largest_pool_with_sol example_env
     (JArr [pair_record ''P0'' ''T'' SOL (JFloat (Fin 5)),
            pair_record ''P1'' ''T'' SOL (JFloat (Fin 9)),
            pair_record ''P2'' ''T'' ''OTHER'' (JFloat (Fin 100)),
            pair_record ''P3'' ''T'' SOL (JFloat (Fin 9))]) ''T''
   = Inr (pair_record ''P1'' ''T'' SOL (JFloat (Fin 9)))"
  using find_largest_pool_with_sol_first_of_ties
    [of "[pair_record ''P0'' ''T'' SOL (JFloat (Fin 5))]"
        "[pair_record ''P2'' ''T'' ''OTHER'' (JFloat (Fin 100)),
          pair_record ''P3'' ''T'' SOL (JFloat (Fin 9))]"
        example_env "''T''" "pair_record ''P1'' ''T'' SOL (JFloat (Fin 9))" "Fin 9"]
  by (auto simp: pool_matches_pair_record liquidity_usd_pair_record example_env_simps
      SOL_neq_OTHER matching_pools_def)

lemma pool_matches_without_quote:
  "pool_matches env a (JObj [(''baseToken'', JObj [(''address'', JStr a)])])
   = Inl (KeyError ''quoteToken'')"
  by (simp add: pool_matches_def then_do_def)

text \<open>
  Claim C4 as stated covers every list with tied maximal records: here two matching
  records tie at \<open>9\<close>, a third record has the token as its base and no \<open>quoteToken\<close>, and
  the selector raises \<open>KeyError\<close> instead of returning the first of the two.
\<close>

theorem find_largest_pool_with_sol_tie_then_unreadable:
  "pool_matches example_env ''T'' (pair_record ''P1'' ''T'' SOL (JFloat (Fin 9))) = Inr True
   \<and> pool_matches example_env ''T'' (pair_record ''P3'' ''T'' SOL (JFloat (Fin 9))) = Inr True
   \<and> liquidity_usd example_env (pair_record ''P1'' ''T'' SOL (JFloat (Fin 9))) = Inr (Fin 9)
   \<and> liquidity_usd example_env (pair_record ''P3'' ''T'' SOL (JFloat (Fin 9))) = Inr (Fin 9)
   \<and> find_largest_pool_with_sol example_env
       (JArr [pair_record ''P1'' ''T'' SOL (JFloat (Fin 9)),
              pair_record ''P3'' ''T'' SOL (JFloat (Fin 9)),
              JObj [(''baseToken'', JObj [(''address'', JStr ''T'')])]]) ''T''
     = Inl (KeyError ''quoteToken'')"
  by (simp add: find_largest_pool_with_sol_def then_do_def pool_matches_pair_record
      liquidity_usd_pair_record example_env_simps pool_matches_without_quote)

section \<open>Calls to the upstream\<close>

lemma then_do_simps [simp]:
  "then_do (Inr x) f = f x"
  "then_do (Inl e) f = Inl e"
  by (simp_all add: then_do_def)

lemma then_do_Inr: "then_do m f = Inr y \<longleftrightarrow> (\<exists>x. m = Inr x \<and> f x = Inr y)"
  by (cases m) simp_all

lemma then_do_Inl: "then_do m f = Inl e \<longleftrightarrow> m = Inl e \<or> (\<exists>x. m = Inr x \<and> f x = Inl e)"
  by (cases m) simp_all

lemma make_api_call_GET:
  "make_api_call T sent ''GET'' url = send T sent (GET, url)"
  by (simp add: make_api_call_def py_upper_def)

lemma call_api_valid:
  "is_solana_address env a \<Longrightarrow> a \<noteq> [] \<Longrightarrow>
   call_api env T sent a =
     ((case T sent (dex_request env a) of
         None \<Rightarrow> Inl RequestException
       | Some resp \<Rightarrow>
           if status_code resp \<noteq> 200 then Inl (InvalidTokens None) else response_json resp),
      sent @ [dex_request env a])"
  by (simp add: call_api_def validate_token_address_def send_def validate_response_def
      split: option.splits)

lemma call_api_invalid:
  "\<not> (is_solana_address env a \<and> a \<noteq> []) \<Longrightarrow>
   call_api env T sent a =
     (Inl (if a = [] then NoPositionsError else InvalidSolanaAddress a), sent)"
  by (auto simp: call_api_def validate_token_address_def)

lemma call_api_Inr:
  "call_api env T sent a = (Inr j, sent') \<longleftrightarrow>
     is_solana_address env a \<and> a \<noteq> [] \<and> sent' = sent @ [dex_request env a] \<and>
     (\<exists>resp. T sent (dex_request env a) = Some resp \<and> status_code resp = 200
        \<and> body resp = Some j)"
proof (cases "is_solana_address env a \<and> a \<noteq> []")
  case True
  then show ?thesis
    by (auto simp: call_api_valid response_json_def split: option.splits)
next
  case False
  then show ?thesis using call_api_invalid[OF False, of T sent] by auto
qed

section \<open>The batch price fetch\<close>

text \<open>
  Claim C1 at a failing input: the addresses \<open>A\<close> and \<open>B\<close> are requested, the upstream
  answers 200 with a record for \<open>A\<close> only, and \<open>fetch_prices\<close> succeeds with a mapping
  that has the key \<open>A\<close> alone. The loop runs over the keys of the response, not over
  the requested addresses, so \<open>B\<close> is dropped without any failure.
\<close>

theorem fetch_prices_drops_unpriced_address:
  "fetch_prices example_env
     (always 200 (JObj [(''data'',
        JObj [(''A'', JObj [(''value'', JInt 1), (''liquidity'', JInt 2)])])]))
     [''A'', ''B'']
   = (Inr [(''A'', PriceInfo (Dec 1) (Some (Dec 2)))],
      [(GET, fetch_prices_url example_env [''A'', ''B''])])"
  by (simp add: fetch_prices_def make_api_call_GET send_def always_def prices_of_response_def
      response_json_def has_value_and_liquidity_def price_info_of_details_def)

section \<open>The batch provider's overview\<close>

lemma fetch_token_overview_Inr:
  "fetch_token_overview env T a = (Inr ov, sent) \<Longrightarrow>
   is_solana_address env a \<and> sent = [(GET, overview_url env a)] \<and>
   (\<exists>resp. T [] (GET, overview_url env a) = Some resp \<and> status_code resp = 200 \<and>
      overview_of_response env a resp = Inr ov)"
  by (auto simp: fetch_token_overview_def make_api_call_GET send_def
      split: if_splits option.splits)

lemma overview_of_token_data_Inr:
  "overview_of_token_data env a td = Inr ov \<Longrightarrow>
   py_truthy td \<and>
   (\<exists>l p liq. dict_get td ''liquidity'' JNull = Inr l \<and> py_truthy l \<and>
      then_do (dict_get td ''value'' (JInt 0)) (Decimal env) = Inr p \<and>
      Decimal env l = Inr liq \<and>
      ov = \<lparr>price = p, symbol = JInt 0, decimals = 0, lastTradeUnixTime = 0,
            liquidity = liq, supply = IntNum 0\<rparr>)"
  by (auto simp: overview_of_token_data_def then_do_Inr split: if_splits)

lemma fetch_token_overview_success:
  assumes "fetch_token_overview env T a = (Inr ov, sent)"
  shows "\<exists>td l p liq. fetched_token_data env T a = Some td \<and> py_truthy td \<and>
      dict_get td ''liquidity'' JNull = Inr l \<and> py_truthy l \<and>
      then_do (dict_get td ''value'' (JInt 0)) (Decimal env) = Inr p \<and>
      Decimal env l = Inr liq \<and>
      ov = \<lparr>price = p, symbol = JInt 0, decimals = 0, lastTradeUnixTime = 0,
            liquidity = liq, supply = IntNum 0\<rparr>"
proof -
  from fetch_token_overview_Inr[OF assms] obtain resp where
    r: "T [] (GET, overview_url env a) = Some resp" "status_code resp = 200"
       "overview_of_response env a resp = Inr ov" by blast
  from r(3) obtain j data td where
    d: "body resp = Some j" "subscript j ''data'' = Inr data"
       "dict_get data a (JObj []) = Inr td" "overview_of_token_data env a td = Inr ov"
    by (auto simp: overview_of_response_def then_do_Inr response_json_def split: option.splits)
  from r d have "fetched_token_data env T a = Some td"
    by (simp add: fetched_token_data_def)
  with overview_of_token_data_Inr[OF d(4)] show ?thesis by blast
qed

lemma fetch_token_overview_example:
  "fetch_token_overview example_env (always 200 (one_token ''A'' (JStr ''1.5'') (JInt 2))) ''A''
   = (Inr \<lparr>price = Dec (3 / 2), symbol = JInt 0, decimals = 0, lastTradeUnixTime = 0,
           liquidity = Dec 2, supply = IntNum 0\<rparr>,
      [(GET, overview_url example_env ''A'')])"
  by (simp add: fetch_token_overview_def make_api_call_GET send_def always_def one_token_def
      overview_of_response_def response_json_def overview_of_token_data_def
      example_env_simps)

text \<open>
  Claim C9: whenever \<open>BirdEyeClient.fetch_token_overview\<close> succeeds, the overview has
  \<open>symbol\<close>, \<open>decimals\<close>, \<open>lastTradeUnixTime\<close> and \<open>supply\<close> equal to \<open>0\<close>, its price is
  the Decimal of the \<open>value\<close> of the upstream record \<open>data[address]\<close> (of \<open>0\<close> when the
  record has none) and its liquidity is the Decimal of the record's \<open>liquidity\<close>.
\<close>

theorem fetch_token_overview_zero_defaults:
  assumes "fetch_token_overview env T address = (Inr ov, sent)"
  shows "symbol ov = JInt 0 \<and> decimals ov = 0 \<and> lastTradeUnixTime ov = 0
       \<and> supply ov = IntNum 0
       \<and> (\<exists>token_data.
            fetched_token_data env T address = Some token_data
          \<and> then_do (dict_get token_data ''value'' (JInt 0)) (Decimal env) = Inr (price ov)
          \<and> then_do (dict_get token_data ''liquidity'' JNull) (Decimal env)
              = Inr (liquidity ov))"
  using fetch_token_overview_success[OF assms] by auto

theorem fetch_token_overview_zero_defaults_witness:
  "fetch_token_overview example_env
     (always 200 (one_token ''A'' (JStr ''1.5'') (JInt 2))) ''A''
   = (Inr \<lparr>price = Dec (3 / 2), symbol = JInt 0, decimals = 0, lastTradeUnixTime = 0,
           liquidity = Dec 2, supply = IntNum 0\<rparr>,
      [(GET, overview_url example_env ''A'')])
   \<and> symbol \<lparr>price = Dec (3 / 2), symbol = JInt 0, decimals = 0, lastTradeUnixTime = 0,
           liquidity = Dec 2, supply = IntNum 0\<rparr> = JInt 0"
  using fetch_token_overview_zero_defaults[OF fetch_token_overview_example]
    fetch_token_overview_example by simp

section \<open>The per-token provider's overview\<close>

text \<open>
  Claim C8: for a valid (and so non-empty) address, when the 200 response carries no
  pairs (an empty list, \<open>null\<close>, or no \<open>pairs\<close> at all), \<open>fetch_token_overview\<close> fails
  with \<open>TransactionNotFoundError\<close> after its single request, and that error is no
  \<open>InvalidTokens\<close>.
\<close>

theorem dex_fetch_token_overview_no_pairs:
  assumes "is_solana_address env address" and "address \<noteq> []"
    and "dex_pairs env T [] address = Some pairs" and "\<not> py_truthy pairs"
  shows "dex_fetch_token_overview env T address
           = (Inl TransactionNotFoundError, [dex_request env address])
       \<and> TransactionNotFoundError \<noteq> InvalidTokens tokens"
  using assms
  by (auto simp: dex_fetch_token_overview_def call_api_valid dex_pairs_def response_json_def
      split: option.splits if_splits sum.splits)

theorem dex_fetch_token_overview_no_pairs_witness:
  "dex_fetch_token_overview example_env (always 200 (JObj [(''pairs'', JArr [])])) ''A''
     = (Inl TransactionNotFoundError, [dex_request example_env ''A''])"
  using dex_fetch_token_overview_no_pairs
    [of example_env "''A''" "always 200 (JObj [(''pairs'', JArr [])])" "JArr []"]
  by (simp add: example_env_simps dex_pairs_def always_def)

section \<open>Overviews and liquidity\<close>

text \<open>
  What the two guards do. The batch provider tests the raw \<open>liquidity\<close>: a falsy one
  fails with \<open>ValueError(NO_LIQUDITY)\<close>, and a truthy JSON number converts to a Decimal
  that is not zero, which leaves the truthy strings and lists. The per-token provider
  tests the converted Decimal: its overview never has a zero liquidity.
\<close>

lemma Decimal_truthy_nonzero:
  "py_truthy l \<Longrightarrow> \<forall>s. l \<noteq> JStr s \<Longrightarrow> \<forall>xs. l \<noteq> JArr xs \<Longrightarrow> Decimal env l = Inr d \<Longrightarrow>
   d \<noteq> Dec 0"
proof (cases l)
  case (JFloat f)
  assume "py_truthy l" "Decimal env l = Inr d"
  with JFloat show ?thesis by (cases f) auto
qed auto

lemma fetched_token_data_Some:
  "fetched_token_data env T a = Some td \<longleftrightarrow>
     (\<exists>resp j data. T [] (GET, overview_url env a) = Some resp \<and> status_code resp = 200
        \<and> body resp = Some j \<and> subscript j ''data'' = Inr data
        \<and> dict_get data a (JObj []) = Inr td)"
  unfolding fetched_token_data_def
  by (cases "T [] (GET, overview_url env a)")
     (auto split: option.splits sum.splits)

lemma fetch_token_overview_falsy_liquidity:
  assumes "is_solana_address env a" and "fetched_token_data env T a = Some td"
    and "py_truthy td" and "dict_get td ''liquidity'' JNull = Inr l" and "\<not> py_truthy l"
  shows "fetch_token_overview env T a
         = (Inl (ValueError NO_LIQUDITY), [(GET, overview_url env a)])"
proof -
  from assms(2) obtain resp j data where
    r: "T [] (GET, overview_url env a) = Some resp" "status_code resp = 200"
       "body resp = Some j" "subscript j ''data'' = Inr data"
       "dict_get data a (JObj []) = Inr td"
    unfolding fetched_token_data_Some by blast
  have "overview_of_token_data env a td = Inl (ValueError NO_LIQUDITY)"
    using assms(3,4,5) by (simp add: overview_of_token_data_def)
  then have "overview_of_response env a resp = Inl (ValueError NO_LIQUDITY)"
    using r by (simp add: overview_of_response_def response_json_def)
  then show ?thesis
    using assms(1) r by (simp add: fetch_token_overview_def make_api_call_GET send_def)
qed

lemma overview_of_pool_liquidity:
  "overview_of_pool env fd liq = Inr ov \<Longrightarrow> liquidity ov = liq"
  unfolding overview_of_pool_def then_do_Inr by auto

lemma dex_overview_of_pairs_Inr:
  assumes "dex_overview_of_pairs env pairs a = Inr ov"
  shows "liquidity ov \<noteq> Dec 0"
proof -
  from assms obtain fd lo where
    "pool_liquidity env fd = Inr lo"
    and c: "(case lo of None \<Rightarrow> Inl (ValueError NO_LIQUDITY)
            | Some liq \<Rightarrow> if liq = Dec 0 then Inl (ValueError NO_LIQUDITY)
                          else overview_of_pool env fd liq) = Inr ov"
    unfolding dex_overview_of_pairs_def then_do_Inr by blast
  from c obtain liq where "lo = Some liq" "liq \<noteq> Dec 0" "overview_of_pool env fd liq = Inr ov"
    by (cases lo) (auto split: if_splits)
  with overview_of_pool_liquidity show ?thesis by blast
qed

lemma dex_pairs_Some:
  "dex_pairs env T sent a = Some p \<longleftrightarrow>
     (\<exists>resp j. T sent (dex_request env a) = Some resp \<and> status_code resp = 200
        \<and> body resp = Some j \<and> dict_get j ''pairs'' JNull = Inr p)"
  unfolding dex_pairs_def
  by (cases "T sent (dex_request env a)") (auto split: option.splits sum.splits)

lemma call_api_pairs:
  assumes "is_solana_address env a" and "a \<noteq> []" and "dex_pairs env T sent a = Some p"
  shows "\<exists>j. call_api env T sent a = (Inr j, sent @ [dex_request env a])
            \<and> dict_get j ''pairs'' JNull = Inr p"
  using assms unfolding dex_pairs_Some call_api_Inr by blast

lemma pairs_of_call_api:
  assumes "call_api env T sent a = (Inr j, sent')" and "dict_get j ''pairs'' JNull = Inr p"
  shows "dex_pairs env T sent a = Some p \<and> sent' = sent @ [dex_request env a]
       \<and> is_solana_address env a \<and> a \<noteq> []"
  using assms unfolding dex_pairs_Some call_api_Inr by blast

lemma dex_fetch_token_overview_pairs:
  assumes "is_solana_address env a" and "a \<noteq> []"
    and "dex_pairs env T [] a = Some pairs"
  shows "dex_fetch_token_overview env T a
         = (if py_truthy pairs then dex_overview_of_pairs env pairs a
            else Inl TransactionNotFoundError, [dex_request env a])"
proof -
  from call_api_pairs[OF assms] obtain j where
    "call_api env T [] a = (Inr j, [dex_request env a])" "dict_get j ''pairs'' JNull = Inr pairs"
    by auto
  then show ?thesis using assms(1) by (simp add: dex_fetch_token_overview_def)
qed

lemma dex_fetch_token_overview_Inr:
  assumes "dex_fetch_token_overview env T a = (Inr ov, sent)"
  shows "\<exists>pairs. dex_pairs env T [] a = Some pairs \<and> py_truthy pairs \<and>
     dex_overview_of_pairs env pairs a = Inr ov"
proof -
  from assms have v: "is_solana_address env a"
    by (auto simp: dex_fetch_token_overview_def split: if_splits)
  with assms obtain j s where c: "call_api env T [] a = (Inr j, s)"
    and t: "then_do (dict_get j ''pairs'' JNull)
             (\<lambda>pairs. if py_truthy pairs then dex_overview_of_pairs env pairs a
                       else Inl TransactionNotFoundError) = Inr ov"
    by (cases "call_api env T [] a")
       (auto simp: dex_fetch_token_overview_def split: sum.splits)
  from t obtain pairs where p: "dict_get j ''pairs'' JNull = Inr pairs"
    "py_truthy pairs" "dex_overview_of_pairs env pairs a = Inr ov"
    unfolding then_do_Inr by (auto split: if_splits)
  with pairs_of_call_api[OF c p(1)] show ?thesis by blast
qed

lemma dex_fetch_token_overview_zero_liquidity:
  assumes "is_solana_address env a" and "a \<noteq> []"
    and "dex_pairs env T [] a = Some pairs" and "py_truthy pairs"
    and "find_largest_pool_with_sol env pairs a = Inr fd"
    and "pool_liquidity env fd = Inr None \<or> pool_liquidity env fd = Inr (Some (Dec 0))"
  shows "dex_fetch_token_overview env T a
         = (Inl (ValueError NO_LIQUDITY), [dex_request env a])"
proof -
  have "dex_overview_of_pairs env pairs a = Inl (ValueError NO_LIQUDITY)"
    using assms(5,6) by (auto simp: dex_overview_of_pairs_def)
  with dex_fetch_token_overview_pairs[OF assms(1,2,3)] assms(4) show ?thesis by simp
qed

lemma pool_liquidity_pair_record:
  "pool_liquidity env (pair_record p b q u) = then_do (Decimal env u) (\<lambda>d. Inr (Some d))"
  by (simp add: pool_liquidity_def pair_record_def)

lemma dex_fetch_token_overview_liquidity_nonzero:
  assumes "dex_fetch_token_overview env T a = (Inr ov, sent)"
  shows "liquidity ov \<noteq> Dec 0"
  using dex_fetch_token_overview_Inr[OF assms] dex_overview_of_pairs_Inr by blast

text \<open>
  Claim C7 at a failing input: the upstream answers 200 with a record for \<open>A\<close> whose
  \<open>liquidity\<close> is the string \<open>"0"\<close>, or the list \<open>[0, [0], 0]\<close>.
  \<open>BirdEyeClient.fetch_token_overview\<close> tests the truth value of the raw value, which is
  truthy, and converts it afterwards: the overview comes back with a liquidity of
  Decimal zero, where the claim has the operation fail with \<open>ValueError(NO_LIQUDITY)\<close>.
\<close>

theorem fetch_token_overview_returns_zero_liquidity:
  "fetch_token_overview example_env (always 200 (one_token ''A'' (JInt 1) (JStr ''0''))) ''A''
   = (Inr \<lparr>price = Dec 1, symbol = JInt 0, decimals = 0, lastTradeUnixTime = 0,
           liquidity = Dec 0, supply = IntNum 0\<rparr>,
      [(GET, overview_url example_env ''A'')])
   \<and> fetch_token_overview example_env
       (always 200 (one_token ''A'' (JInt 1) (JArr [JInt 0, JArr [JInt 0], JInt 0]))) ''A''
   = (Inr \<lparr>price = Dec 1, symbol = JInt 0, decimals = 0, lastTradeUnixTime = 0,
           liquidity = Dec 0, supply = IntNum 0\<rparr>,
      [(GET, overview_url example_env ''A'')])"
  by (simp add: fetch_token_overview_def make_api_call_GET send_def always_def one_token_def
      overview_of_response_def response_json_def overview_of_token_data_def
      example_env_simps decimal_sign_def fits_c_long_def finite_decimal_def)

section \<open>The per-token price fetch\<close>

lemma pool_loop_no_match:
  "\<forall>e\<in>set es. pool_matches env a e = Inr False \<Longrightarrow> pool_loop env a es me m = Inr me"
  by (induction es) simp_all

lemma price_info_no_match:
  assumes "\<forall>e\<in>set es. pool_matches env a e = Inr False"
  shows "price_info_of_pairs env (JArr es) a = Inr (PriceInfo (Dec 0) None)"
  using pool_loop_no_match[OF assms]
  by (simp add: price_info_of_pairs_def find_largest_pool_with_sol_def pool_liquidity_def)

lemma fetch_prices_dex_loop_pairs:
  assumes "is_solana_address env a" and "a \<noteq> []" and "dex_pairs env T sent a = Some pairs"
  shows "fetch_prices_dex_loop env T (a # rest) prices invalid sent =
     (if py_truthy pairs then
        (case price_info_of_pairs env pairs a of
           Inl e \<Rightarrow> (Inl e, sent @ [dex_request env a])
         | Inr info \<Rightarrow>
             fetch_prices_dex_loop env T rest (AList.update a info prices) invalid
               (sent @ [dex_request env a]))
      else fetch_prices_dex_loop env T rest prices (invalid @ [a])
             (sent @ [dex_request env a]))"
proof -
  from call_api_pairs[OF assms] obtain j where
    "call_api env T sent a = (Inr j, sent @ [dex_request env a])"
    "dict_get j ''pairs'' JNull = Inr pairs" by auto
  then show ?thesis by simp
qed

text \<open>
  Claim C10, as the code has it: in \<open>fetch_prices_dex\<close>, for a valid, non-empty address
  whose 200 response carries a non-empty list of pairs on each of which the selector's
  condition evaluates to False without raising (no pair has the address as base token
  and \<open>SOL_MINT\<close> as quote token), the selector returns its empty record, the loop leaves
  the rejection list as it is, maps the address to \<open>PriceInfo(Decimal(0), None)\<close> and goes
  on with the next address; called with that address alone, the operation returns that
  mapping.
\<close>

theorem fetch_prices_dex_no_native_pair:
  assumes "is_solana_address env address" and "address \<noteq> []"
    and "dex_pairs env T sent address = Some (JArr entries)" and "entries \<noteq> []"
    and "\<forall>entry\<in>set entries. pool_matches env address entry = Inr False"
  shows "fetch_prices_dex_loop env T (address # rest) prices invalid_token_list sent
         = fetch_prices_dex_loop env T rest
             (AList.update address (PriceInfo (Dec 0) None) prices) invalid_token_list
             (sent @ [dex_request env address])
       \<and> (sent = [] \<longrightarrow>
            fetch_prices_dex env T [address]
            = (Inr [(address, PriceInfo (Dec 0) None)], [dex_request env address]))"
proof -
  have step: "fetch_prices_dex_loop env T (address # rest') prices' invalid' sent
         = fetch_prices_dex_loop env T rest'
             (AList.update address (PriceInfo (Dec 0) None) prices') invalid'
             (sent @ [dex_request env address])" for rest' prices' invalid'
    using fetch_prices_dex_loop_pairs[OF assms(1,2,3)] assms(4) price_info_no_match[OF assms(5)]
    by simp
  have single: "fetch_prices_dex_loop env T [address] [] [] sent
         = (Inr ([(address, PriceInfo (Dec 0) None)], []), sent @ [dex_request env address])"
    by (subst step) simp
  show ?thesis
  proof (intro conjI impI)
    show "fetch_prices_dex_loop env T (address # rest) prices invalid_token_list sent
         = fetch_prices_dex_loop env T rest
             (AList.update address (PriceInfo (Dec 0) None) prices) invalid_token_list
             (sent @ [dex_request env address])" by (rule step)
  next
    assume "sent = []"
    with single show "fetch_prices_dex env T [address]
            = (Inr [(address, PriceInfo (Dec 0) None)], [dex_request env address])"
      by (simp add: fetch_prices_dex_def del: fetch_prices_dex_loop.simps)
  qed
qed

theorem fetch_prices_dex_no_native_pair_witness:
  "fetch_prices_dex example_env
     (always 200 (JObj [(''pairs'', JArr [pair_record ''P0'' ''A'' ''OTHER'' (JInt 7)])]))
     [''A'']
   = (Inr [(''A'', PriceInfo (Dec 0) None)], [dex_request example_env ''A''])"
  using fetch_prices_dex_no_native_pair
    [of example_env "''A''"
        "always 200 (JObj [(''pairs'', JArr [pair_record ''P0'' ''A'' ''OTHER'' (JInt 7)])])"
        "[]" "[pair_record ''P0'' ''A'' ''OTHER'' (JInt 7)]"]
  by (simp add: example_env_simps dex_pairs_def always_def pool_matches_pair_record
      SOL_neq_OTHER)

text \<open>
  Claim C10 as stated covers every non-empty list without a pair of the address and the
  native asset: here the only record has the address as its base and no \<open>quoteToken\<close>,
  the selector's condition raises \<open>KeyError\<close>, and the operation fails with it instead
  of mapping the address to a \<open>PriceInfo\<close>.
\<close>

theorem fetch_prices_dex_unreadable_pair:
  "fetch_prices_dex example_env
     (always 200
        (JObj [(''pairs'', JArr [JObj [(''baseToken'', JObj [(''address'', JStr ''A'')])]])]))
     [''A'']
   = (Inl (KeyError ''quoteToken''), [dex_request example_env ''A''])"
  by (simp add: fetch_prices_dex_def call_api_valid example_env_simps always_def
      response_json_def price_info_of_pairs_def find_largest_pool_with_sol_def
      pool_matches_without_quote)

subsection \<open>Where an error comes from\<close>

text \<open>
  No built-in operation, no call to the upstream and no step of the selector raises
  \<open>InvalidTokens\<close> with a token list.
\<close>

lemma dict_get_Inl: "dict_get x k d = Inl e \<Longrightarrow> \<not> carries_tokens e"
  by (cases x) auto

lemma subscript_Inl: "subscript x k = Inl e \<Longrightarrow> \<not> carries_tokens e"
  by (cases x) (auto split: option.splits)

lemma py_in_Inl: "py_in k x = Inl e \<Longrightarrow> \<not> carries_tokens e"
  by (cases x) auto

lemma py_iter_Inl: "py_iter x = Inl e \<Longrightarrow> \<not> carries_tokens e"
  by (cases x) auto

lemma decimal_digits_Inl: "decimal_digits xs = Inl e \<Longrightarrow> \<not> carries_tokens e"
  by (induction xs arbitrary: e) (auto split: option.splits if_splits sum.splits)

lemma decimal_of_sequence_Inl: "decimal_of_sequence xs = Inl e \<Longrightarrow> \<not> carries_tokens e"
proof (induction xs rule: decimal_of_sequence.induct)
  case (1 s d ex)
  have c: "decimal_coefficient d = Inl e \<Longrightarrow> \<not> carries_tokens e"
    by (cases d) (auto dest: decimal_digits_Inl)
  have x: "decimal_exponent_of ex = Inl e \<Longrightarrow> \<not> carries_tokens e"
    by (cases ex) (auto split: option.splits if_splits)
  have g: "decimal_sign s = Inl e \<Longrightarrow> \<not> carries_tokens e"
    by (auto simp: decimal_sign_def split: option.splits if_splits)
  have f: "finite_decimal b ds n = Inl e \<Longrightarrow> \<not> carries_tokens e" for b ds n
    by (auto simp: finite_decimal_def Let_def split: if_splits)
  show ?case
  proof (cases "decimal_sign s")
    case (Inl e')
    with "1.prems" g show ?thesis by simp
  next
    case sign: (Inr negative)
    show ?thesis
    proof (cases "decimal_exponent_of ex")
      case (Inl e')
      with "1.prems" sign x show ?thesis by simp
    next
      case expo: (Inr xa)
      show ?thesis
      proof (cases "decimal_coefficient d")
        case (Inl e')
        with "1.prems" sign expo c show ?thesis by simp
      next
        case (Inr ds)
        with "1.prems" sign expo f[of negative ds] show ?thesis by (cases xa) auto
      qed
    qed
  qed
qed auto

lemma Decimal_Inl: "Decimal env x = Inl e \<Longrightarrow> \<not> carries_tokens e"
  by (induction env x rule: Decimal.induct)
     (auto split: option.splits dest: decimal_of_sequence_Inl)

lemma py_float_Inl: "py_float env x = Inl e \<Longrightarrow> \<not> carries_tokens e"
  by (cases x) (auto split: option.splits)

lemma pool_matches_Inl: "pool_matches env a x = Inl e \<Longrightarrow> \<not> carries_tokens e"
  unfolding pool_matches_def then_do_Inl
  by (auto split: if_splits simp: then_do_Inl dest: dict_get_Inl subscript_Inl)

lemma liquidity_usd_Inl: "liquidity_usd env x = Inl e \<Longrightarrow> \<not> carries_tokens e"
  unfolding liquidity_usd_def then_do_Inl
  by (auto simp: then_do_Inl dest: dict_get_Inl py_float_Inl)

lemma pool_loop_Inl: "pool_loop env a es me m = Inl e \<Longrightarrow> \<not> carries_tokens e"
proof (induction es arbitrary: me m)
  case Nil
  then show ?case by simp
next
  case (Cons x es)
  then show ?case
    by (auto split: sum.splits bool.splits if_splits
        dest: pool_matches_Inl liquidity_usd_Inl)
qed

lemma find_largest_Inl:
  "find_largest_pool_with_sol env ps a = Inl e \<Longrightarrow> \<not> carries_tokens e"
  unfolding find_largest_pool_with_sol_def then_do_Inl
  by (auto dest: py_iter_Inl pool_loop_Inl)

lemma pool_liquidity_Inl: "pool_liquidity env fd = Inl e \<Longrightarrow> \<not> carries_tokens e"
  unfolding pool_liquidity_def then_do_Inl
  by (auto split: if_splits simp: then_do_Inl dest: py_in_Inl subscript_Inl dict_get_Inl Decimal_Inl)

lemma price_info_of_pairs_Inl:
  "price_info_of_pairs env ps a = Inl e \<Longrightarrow> \<not> carries_tokens e"
  unfolding price_info_of_pairs_def then_do_Inl
  by (auto simp: then_do_Inl dest: find_largest_Inl pool_liquidity_Inl dict_get_Inl Decimal_Inl)

lemma call_api_Inl: "call_api env T sent a = (Inl e, s) \<Longrightarrow> \<not> carries_tokens e"
proof (cases "is_solana_address env a \<and> a \<noteq> []")
  case True
  assume "call_api env T sent a = (Inl e, s)"
  with True show ?thesis
    by (auto simp: call_api_valid response_json_def split: option.splits if_splits)
next
  case False
  assume "call_api env T sent a = (Inl e, s)"
  with call_api_invalid[OF False, of T sent] show ?thesis by (auto split: if_splits)
qed

subsection \<open>The loop over the addresses\<close>

lemma fetch_prices_dex_loop_Cons_Inr:
  assumes "fetch_prices_dex_loop env T (a # rest) prices invalid sent = (Inr res, sent')"
  shows "\<exists>p. dex_pairs env T sent a = Some p \<and> is_solana_address env a \<and> a \<noteq> [] \<and>
     (if py_truthy p then
        \<exists>info. price_info_of_pairs env p a = Inr info \<and>
          fetch_prices_dex_loop env T rest (AList.update a info prices) invalid
            (sent @ [dex_request env a]) = (Inr res, sent')
      else fetch_prices_dex_loop env T rest prices (invalid @ [a])
             (sent @ [dex_request env a]) = (Inr res, sent'))"
proof -
  obtain x s1 where c: "call_api env T sent a = (x, s1)" by (cases "call_api env T sent a")
  show ?thesis
  proof (cases x)
    case (Inl e)
    with c assms show ?thesis by simp
  next
    case (Inr j)
    show ?thesis
    proof (cases "dict_get j ''pairs'' JNull")
      case (Inl e)
      with c Inr assms show ?thesis by simp
    next
      case p: (Inr p)
      from c Inr have c': "call_api env T sent a = (Inr j, s1)" by simp
      from pairs_of_call_api[OF c' p] have
        d: "dex_pairs env T sent a = Some p" "is_solana_address env a" "a \<noteq> []" by auto
      from assms show ?thesis
        unfolding fetch_prices_dex_loop_pairs[OF d(2,3,1)] using d
        by (auto split: if_splits sum.splits)
    qed
  qed
qed

lemma fetch_prices_dex_loop_Inr:
  "fetch_prices_dex_loop env T addrs prices invalid sent = (Inr (prices', invalid'), sent') \<Longrightarrow>
   sent' = sent @ map (dex_request env) addrs \<and>
   invalid' = invalid @ rejected env T sent addrs \<and>
   fst ` set prices' \<subseteq> fst ` set prices \<union> set addrs \<and>
   set addrs \<subseteq> fst ` set prices' \<union> set (rejected env T sent addrs) \<and>
   fst ` set prices \<subseteq> fst ` set prices'"
proof (induction addrs arbitrary: prices invalid sent)
  case Nil
  then show ?case by simp
next
  case (Cons a rest)
  from fetch_prices_dex_loop_Cons_Inr[OF Cons.prems] obtain p where
    d: "dex_pairs env T sent a = Some p"
    and s: "if py_truthy p then
        \<exists>info. price_info_of_pairs env p a = Inr info \<and>
          fetch_prices_dex_loop env T rest (AList.update a info prices) invalid
            (sent @ [dex_request env a]) = (Inr (prices', invalid'), sent')
      else fetch_prices_dex_loop env T rest prices (invalid @ [a])
             (sent @ [dex_request env a]) = (Inr (prices', invalid'), sent')" by blast
  show ?case
  proof (cases "py_truthy p")
    case True
    with s obtain info where
      "fetch_prices_dex_loop env T rest (AList.update a info prices) invalid
            (sent @ [dex_request env a]) = (Inr (prices', invalid'), sent')" by auto
    from Cons.IH[OF this] d True show ?thesis
      by (auto simp: dom_update)
  next
    case False
    with s have
      "fetch_prices_dex_loop env T rest prices (invalid @ [a])
             (sent @ [dex_request env a]) = (Inr (prices', invalid'), sent')" by simp
    from Cons.IH[OF this] d False show ?thesis by auto
  qed
qed

lemma fetch_prices_dex_loop_Inl:
  "fetch_prices_dex_loop env T addrs prices invalid sent = (Inl e, sent') \<Longrightarrow>
   \<not> carries_tokens e"
proof (induction addrs arbitrary: prices invalid sent)
  case Nil
  then show ?case by simp
next
  case (Cons a rest)
  obtain x s1 where c: "call_api env T sent a = (x, s1)" by (cases "call_api env T sent a")
  show ?case
  proof (cases x)
    case (Inl e')
    with c Cons.prems call_api_Inl[of env T sent a e' s1] show ?thesis by simp
  next
    case (Inr j)
    show ?thesis
    proof (cases "dict_get j ''pairs'' JNull")
      case (Inl e')
      with c Inr Cons.prems dict_get_Inl[OF Inl] show ?thesis by simp
    next
      case p: (Inr p)
      show ?thesis
      proof (cases "py_truthy p")
        case False
        with c Inr p Cons.prems Cons.IH show ?thesis by simp
      next
        case True
        show ?thesis
        proof (cases "price_info_of_pairs env p a")
          case (Inl e')
          with c Inr p True Cons.prems price_info_of_pairs_Inl[OF Inl] show ?thesis by simp
        next
          case i: (Inr info)
          with c Inr p True Cons.prems Cons.IH show ?thesis by simp
        qed
      qed
    qed
  qed
qed

lemma fetch_prices_dex_loop_sent:
  "fetch_prices_dex_loop env T addrs prices invalid sent = (r, sent') \<Longrightarrow>
   \<exists>k\<le>length addrs. sent' = sent @ map (dex_request env) (take k addrs) \<and>
     (\<forall>b\<in>set (take k addrs). is_solana_address env b \<and> b \<noteq> []) \<and>
     ((\<exists>a\<in>set addrs. \<not> is_solana_address env a) \<longrightarrow> (\<exists>e. r = Inl e))"
proof (induction addrs arbitrary: prices invalid sent)
  case Nil
  then show ?case by simp
next
  case (Cons a rest)
  show ?case
  proof (cases "is_solana_address env a \<and> a \<noteq> []")
    case False
    from call_api_invalid[OF False, of T sent] Cons.prems
    have "sent' = sent" "\<exists>e. r = Inl e" by auto
    then show ?thesis by (intro exI[of _ 0]) simp
  next
    case True
    let ?s = "sent @ [dex_request env a]"
    have stop: ?thesis if "sent' = ?s" "\<exists>e. r = Inl e"
      using that True by (intro exI[of _ 1]) simp
    have go: ?thesis
      if "fetch_prices_dex_loop env T rest prices2 invalid2 ?s = (r, sent')"
      for prices2 invalid2
    proof -
      from Cons.IH[OF that] obtain k where k: "k \<le> length rest"
        "sent' = ?s @ map (dex_request env) (take k rest)"
        "\<forall>b\<in>set (take k rest). is_solana_address env b \<and> b \<noteq> []"
        "(\<exists>a\<in>set rest. \<not> is_solana_address env a) \<longrightarrow> (\<exists>e. r = Inl e)" by blast
      then show ?thesis using True by (intro exI[of _ "Suc k"]) auto
    qed
    obtain x where c: "call_api env T sent a = (x, ?s)"
      using call_api_valid[of env a T sent] True by simp
    show ?thesis
    proof (cases x)
      case (Inl e')
      with c Cons.prems show ?thesis by (intro stop) auto
    next
      case (Inr j)
      show ?thesis
      proof (cases "dict_get j ''pairs'' JNull")
        case (Inl e')
        with c Inr Cons.prems show ?thesis by (intro stop) auto
      next
        case p: (Inr p)
        show ?thesis
        proof (cases "py_truthy p")
          case False
          with c Inr p Cons.prems show ?thesis by (intro go[of prices "invalid @ [a]"]) simp
        next
          case t: True
          show ?thesis
          proof (cases "price_info_of_pairs env p a")
            case (Inl e')
            with c Inr p t Cons.prems show ?thesis by (intro stop) auto
          next
            case i: (Inr info)
            with c Inr p t Cons.prems show ?thesis
              by (intro go[of "AList.update a info prices" invalid]) simp
          qed
        qed
      qed
    qed
  qed
qed

lemma dex_pairs_no_pairs_for_A:
  "dex_pairs example_env no_pairs_for_A sent ''A'' = Some (JArr [])"
  "dex_pairs example_env no_pairs_for_A sent ''B''
     = Some (JArr [pair_record ''P0'' ''B'' SOL (JFloat (Fin 7))])"
  "dex_pairs example_env no_pairs_for_A sent ''C'' = None"
  by (simp_all add: dex_pairs_def no_pairs_for_A_def by_url_def dex_request_def
      example_env_simps)

lemma price_info_example:
  "price_info_of_pairs example_env (JArr [pair_record ''P0'' ''B'' SOL (JFloat (Fin 7))]) ''B''
   = Inr (PriceInfo (Dec (3 / 2)) (Some (Dec 7)))"
  by (simp add: price_info_of_pairs_def find_largest_pool_with_sol_def
      pool_matches_pair_record liquidity_usd_pair_record example_env_simps
      pool_liquidity_pair_record)
     (simp add: pair_record_def example_env_simps)

lemma fetch_prices_dex_example:
  "fetch_prices_dex example_env no_pairs_for_A [''A'', ''B'', ''A'']
   = (Inl (InvalidTokens (Some [''A'', ''A''])),
      map (dex_request example_env) [''A'', ''B'', ''A''])"
  by (simp add: fetch_prices_dex_def fetch_prices_dex_loop_pairs dex_pairs_no_pairs_for_A
      example_env_simps price_info_example del: fetch_prices_dex_loop.simps(2))

lemma fetch_prices_dex_example_B:
  "fetch_prices_dex example_env no_pairs_for_A [''B'']
   = (Inr [(''B'', PriceInfo (Dec (3 / 2)) (Some (Dec 7)))], [dex_request example_env ''B''])"
  by (simp add: fetch_prices_dex_def fetch_prices_dex_loop_pairs dex_pairs_no_pairs_for_A
      example_env_simps price_info_example del: fetch_prices_dex_loop.simps(2))

text \<open>
  The loop over a list that continues another one, and the ways in which one address
  ends it.
\<close>

lemma fetch_prices_dex_loop_append:
  "fetch_prices_dex_loop env T (pre @ rest) prices invalid sent =
     (case fetch_prices_dex_loop env T pre prices invalid sent of
        (Inl e, s) \<Rightarrow> (Inl e, s)
      | (Inr (p, i), s) \<Rightarrow> fetch_prices_dex_loop env T rest p i s)"
proof (induction pre arbitrary: prices invalid sent)
  case Nil
  show ?case by simp
next
  case (Cons a pre)
  show ?case
    by (simp add: Cons.IH split: prod.splits sum.splits)
qed

lemma fetch_prices_dex_stops:
  assumes "fetch_prices_dex_loop env T before [] [] [] = (Inr (p, i), sent)"
    and "fetch_prices_dex_loop env T [address] p i sent = (Inl e, sent')"
  shows "fetch_prices_dex env T (before @ address # rest) = (Inl e, sent')"
proof -
  have "fetch_prices_dex_loop env T (before @ [address] @ rest) [] [] [] = (Inl e, sent')"
    using assms
    by (simp only: fetch_prices_dex_loop_append[of env T before] 
          fetch_prices_dex_loop_append[of env T "[address]"] prod.case sum.case)
  then show ?thesis by (simp add: fetch_prices_dex_def del: fetch_prices_dex_loop.simps)
qed

lemma fetch_prices_dex_loop_invalid:
  "\<not> (is_solana_address env a \<and> a \<noteq> []) \<Longrightarrow>
   fetch_prices_dex_loop env T [a] p i sent
   = (Inl (if a = [] then NoPositionsError else InvalidSolanaAddress a), sent)"
  by (simp add: call_api_invalid)

lemma fetch_prices_dex_loop_non_200:
  "is_solana_address env a \<Longrightarrow> a \<noteq> [] \<Longrightarrow> T sent (dex_request env a) = Some resp \<Longrightarrow>
   status_code resp \<noteq> 200 \<Longrightarrow>
   fetch_prices_dex_loop env T [a] p i sent = (Inl (InvalidTokens None), sent @ [dex_request env a])"
  by (simp add: call_api_valid)

lemma fetch_prices_dex_loop_not_json:
  "is_solana_address env a \<Longrightarrow> a \<noteq> [] \<Longrightarrow> T sent (dex_request env a) = Some resp \<Longrightarrow>
   status_code resp = 200 \<Longrightarrow> body resp = None \<Longrightarrow>
   fetch_prices_dex_loop env T [a] p i sent = (Inl JSONDecodeError, sent @ [dex_request env a])"
  by (simp add: call_api_valid response_json_def)

lemma fetch_prices_dex_loop_unreadable:
  "is_solana_address env a \<Longrightarrow> a \<noteq> [] \<Longrightarrow> dex_pairs env T sent a = Some pairs \<Longrightarrow>
   py_truthy pairs \<Longrightarrow> price_info_of_pairs env pairs a = Inl e \<Longrightarrow>
   fetch_prices_dex_loop env T [a] p i sent = (Inl e, sent @ [dex_request env a])"
  by (simp add: fetch_prices_dex_loop_pairs del: fetch_prices_dex_loop.simps(2))

lemma fetch_prices_dex_aborts:
  assumes b: "fetch_prices_dex_loop env T before [] [] [] = (Inr done, sent)"
  shows "(\<not> (is_solana_address env a \<and> a \<noteq> [])
           \<longrightarrow> fetch_prices_dex env T (before @ a # rest)
               = (Inl (if a = [] then NoPositionsError else InvalidSolanaAddress a), sent))
       \<and> (is_solana_address env a \<and> a \<noteq> [] \<and> T sent (dex_request env a) = Some resp
            \<and> status_code resp \<noteq> 200
           \<longrightarrow> fetch_prices_dex env T (before @ a # rest)
               = (Inl (InvalidTokens None), sent @ [dex_request env a]))
       \<and> (is_solana_address env a \<and> a \<noteq> [] \<and> T sent (dex_request env a) = Some resp
            \<and> status_code resp = 200 \<and> body resp = None
           \<longrightarrow> fetch_prices_dex env T (before @ a # rest)
               = (Inl JSONDecodeError, sent @ [dex_request env a]))
       \<and> (is_solana_address env a \<and> a \<noteq> [] \<and> dex_pairs env T sent a = Some pairs
            \<and> py_truthy pairs \<and> price_info_of_pairs env pairs a = Inl e
           \<longrightarrow> fetch_prices_dex env T (before @ a # rest)
               = (Inl e, sent @ [dex_request env a]))"
proof -
  obtain p i where d: "done = (p, i)" by (cases "done")
  note st = fetch_prices_dex_stops[OF b[unfolded d], of a _ _ rest]
  show ?thesis
    using st[OF fetch_prices_dex_loop_invalid] st[OF fetch_prices_dex_loop_non_200]
      st[OF fetch_prices_dex_loop_not_json] st[OF fetch_prices_dex_loop_unreadable]
    by blast
qed

text \<open>
  Claim C6, as the code has it. An address whose response carries no pairs never stops
  the loop: it is appended to the rejection list and the loop goes on with the next
  address. Whenever \<open>fetch_prices_dex\<close> fails with \<open>InvalidTokens\<close> carrying a list, one
  request per address has been made, in input order, and the list is exactly the
  addresses without pairs, in input order. Whenever it succeeds, every address has been
  requested, none has been rejected and the keys of the result are the addresses. When
  the loop runs to its end with a rejected address, the operation fails once, with
  \<open>InvalidTokens\<close> carrying all of them. And after addresses processed without error,
  the next address aborts the loop at once with its own error: \<open>InvalidSolanaAddress\<close>
  (\<open>NoPositionsError\<close> for the empty string) and no request when it fails validation,
  the bare \<open>InvalidTokens()\<close> when its response is not 200, \<open>JSONDecodeError\<close> when the
  body of its 200 response is not JSON, and the error of the selector or of a Decimal
  conversion when they raise on its pairs.
\<close>

theorem fetch_prices_dex_collects_rejections:
  "(is_solana_address env address \<and> address \<noteq> []
      \<and> dex_pairs env T sent address = Some pairs \<and> \<not> py_truthy pairs
    \<longrightarrow> fetch_prices_dex_loop env T (address # rest) prices invalid_token_list sent
          = fetch_prices_dex_loop env T rest prices (invalid_token_list @ [address])
              (sent @ [dex_request env address]))
   \<and> (fetch_prices_dex env T token_addresses = (Inl (InvalidTokens (Some tokens)), sent')
    \<longrightarrow> sent' = map (dex_request env) token_addresses
        \<and> tokens = rejected env T [] token_addresses \<and> tokens \<noteq> [])
   \<and> (fetch_prices_dex env T token_addresses = (Inr result, sent')
    \<longrightarrow> sent' = map (dex_request env) token_addresses
        \<and> rejected env T [] token_addresses = []
        \<and> fst ` set result = set token_addresses)
   \<and> (token_addresses \<noteq> []
      \<and> fetch_prices_dex_loop env T token_addresses [] [] [] = (Inr done, sent')
      \<and> rejected env T [] token_addresses \<noteq> []
    \<longrightarrow> fetch_prices_dex env T token_addresses
          = (Inl (InvalidTokens (Some (rejected env T [] token_addresses))),
             map (dex_request env) token_addresses))
   \<and> (fetch_prices_dex_loop env T before [] [] [] = (Inr processed, sent_before)
    \<longrightarrow> (\<not> (is_solana_address env next_address \<and> next_address \<noteq> [])
          \<longrightarrow> fetch_prices_dex env T (before @ next_address # later)
              = (Inl (if next_address = [] then NoPositionsError
                      else InvalidSolanaAddress next_address), sent_before))
        \<and> (is_solana_address env next_address \<and> next_address \<noteq> []
             \<and> T sent_before (dex_request env next_address) = Some resp
             \<and> status_code resp \<noteq> 200
          \<longrightarrow> fetch_prices_dex env T (before @ next_address # later)
              = (Inl (InvalidTokens None), sent_before @ [dex_request env next_address]))
        \<and> (is_solana_address env next_address \<and> next_address \<noteq> []
             \<and> T sent_before (dex_request env next_address) = Some resp
             \<and> status_code resp = 200 \<and> body resp = None
          \<longrightarrow> fetch_prices_dex env T (before @ next_address # later)
              = (Inl JSONDecodeError, sent_before @ [dex_request env next_address]))
        \<and> (is_solana_address env next_address \<and> next_address \<noteq> []
             \<and> dex_pairs env T sent_before next_address = Some next_pairs
             \<and> py_truthy next_pairs
             \<and> price_info_of_pairs env next_pairs next_address = Inl e
          \<longrightarrow> fetch_prices_dex env T (before @ next_address # later)
              = (Inl e, sent_before @ [dex_request env next_address])))"
proof -
  have 1: "is_solana_address env address \<and> address \<noteq> []
      \<and> dex_pairs env T sent address = Some pairs \<and> \<not> py_truthy pairs
    \<longrightarrow> fetch_prices_dex_loop env T (address # rest) prices invalid_token_list sent
          = fetch_prices_dex_loop env T rest prices (invalid_token_list @ [address])
              (sent @ [dex_request env address])"
    using fetch_prices_dex_loop_pairs[of env address T sent pairs] by simp
  have 2: "sent' = map (dex_request env) token_addresses
        \<and> tokens = rejected env T [] token_addresses \<and> tokens \<noteq> []"
    if a: "fetch_prices_dex env T token_addresses = (Inl (InvalidTokens (Some tokens)), sent')"
  proof -
  from a have ne: "token_addresses \<noteq> []"
    by (auto simp: fetch_prices_dex_def split: if_splits)
  obtain r s where l: "fetch_prices_dex_loop env T token_addresses [] [] [] = (r, s)"
    by (cases "fetch_prices_dex_loop env T token_addresses [] [] []")
  show ?thesis
  proof (cases r)
    case (Inl e)
    with l fetch_prices_dex_loop_Inl[of env T token_addresses "[]" "[]" "[]" e s]
    have "\<not> carries_tokens e" by simp
    moreover from a ne l Inl have "e = InvalidTokens (Some tokens)"
      by (simp add: fetch_prices_dex_def)
    ultimately show ?thesis by simp
  next
    case (Inr pi)
    obtain ps inv where pi: "pi = (ps, inv)" by (cases pi)
    from l Inr pi fetch_prices_dex_loop_Inr[of env T token_addresses "[]" "[]" "[]" ps inv s]
    have "s = map (dex_request env) token_addresses" "inv = rejected env T [] token_addresses"
      by auto
    with a ne l Inr pi show ?thesis
      by (auto simp: fetch_prices_dex_def split: if_splits)
  qed
  qed
  have 3: "sent' = map (dex_request env) token_addresses
        \<and> rejected env T [] token_addresses = []
        \<and> fst ` set result = set token_addresses"
    if a: "fetch_prices_dex env T token_addresses = (Inr result, sent')"
  proof -
  from a have ne: "token_addresses \<noteq> []"
    by (auto simp: fetch_prices_dex_def split: if_splits)
  obtain r s where l: "fetch_prices_dex_loop env T token_addresses [] [] [] = (r, s)"
    by (cases "fetch_prices_dex_loop env T token_addresses [] [] []")
  show ?thesis
  proof (cases r)
    case (Inl e)
    with a ne l show ?thesis by (simp add: fetch_prices_dex_def)
  next
    case (Inr pi)
    obtain ps inv where pi: "pi = (ps, inv)" by (cases pi)
    from a ne l Inr pi have r: "inv = []" "result = ps" "sent' = s"
      by (auto simp: fetch_prices_dex_def split: if_splits)
    from l Inr pi fetch_prices_dex_loop_Inr[of env T token_addresses "[]" "[]" "[]" ps inv s]
    have "s = map (dex_request env) token_addresses" "inv = rejected env T [] token_addresses"
      "fst ` set ps \<subseteq> set token_addresses"
      "set token_addresses \<subseteq> fst ` set ps \<union> set (rejected env T [] token_addresses)"
      by auto
    with r show ?thesis by auto
  qed
  qed
  have 4: "fetch_prices_dex env T token_addresses
          = (Inl (InvalidTokens (Some (rejected env T [] token_addresses))),
             map (dex_request env) token_addresses)"
    if a: "token_addresses \<noteq> []
      \<and> fetch_prices_dex_loop env T token_addresses [] [] [] = (Inr done, sent')
      \<and> rejected env T [] token_addresses \<noteq> []"
  proof -
  obtain ps inv where pi: "done = (ps, inv)" by (cases "done")
  from a pi fetch_prices_dex_loop_Inr[of env T token_addresses "[]" "[]" "[]" ps inv sent']
  have "sent' = map (dex_request env) token_addresses"
    "inv = rejected env T [] token_addresses" by auto
  with a pi show ?thesis
    by (simp add: fetch_prices_dex_def)
  qed
  note 5 = fetch_prices_dex_aborts
    [of env T before processed sent_before next_address later resp next_pairs e]
  from 1 2 3 4 5 show ?thesis by blast
qed

theorem fetch_prices_dex_collects_rejections_witness:
  "fetch_prices_dex example_env no_pairs_for_A [''A'', ''B'', ''A'']
   = (Inl (InvalidTokens (Some [''A'', ''A''])),
      map (dex_request example_env) [''A'', ''B'', ''A''])
   \<and> [''A'', ''A''] = rejected example_env no_pairs_for_A [] [''A'', ''B'', ''A'']
   \<and> fetch_prices_dex_loop example_env no_pairs_for_A [''A''] [] [] []
     = (Inr ([], [''A'']), [dex_request example_env ''A''])
   \<and> rejected example_env no_pairs_for_A [] [''B''] = []
   \<and> fetch_prices_dex example_env no_pairs_for_A ([''A''] @ ''bad'' # [''B''])
     = (Inl (InvalidSolanaAddress ''bad''), [dex_request example_env ''A''])"
proof -
  have 1: "[''A'', ''A''] = rejected example_env no_pairs_for_A [] [''A'', ''B'', ''A'']"
    using fetch_prices_dex_collects_rejections
      [where env = example_env and T = no_pairs_for_A
         and token_addresses = "[''A'', ''B'', ''A'']" and tokens = "[''A'', ''A'']"
         and sent' = "map (dex_request example_env) [''A'', ''B'', ''A'']"]
      fetch_prices_dex_example
    by simp
  have 2: "fetch_prices_dex_loop example_env no_pairs_for_A [''A''] [] [] []
     = (Inr ([], [''A'']), [dex_request example_env ''A''])"
    using fetch_prices_dex_collects_rejections
      [where env = example_env and T = no_pairs_for_A and address = "''A''"
         and sent = "[]" and pairs = "JArr []" and rest = "[]" and prices = "[]"
         and invalid_token_list = "[]"]
    by (simp add: example_env_simps dex_pairs_no_pairs_for_A
        del: fetch_prices_dex_loop.simps(2))
  have 3: "rejected example_env no_pairs_for_A [] [''B''] = []"
    using fetch_prices_dex_collects_rejections
      [where env = example_env and T = no_pairs_for_A and token_addresses = "[''B'']"
         and sent' = "[dex_request example_env ''B'']"
         and result = "[(''B'', PriceInfo (Dec (3 / 2)) (Some (Dec 7)))]"]
      fetch_prices_dex_example_B
    by simp
  have 4: "fetch_prices_dex example_env no_pairs_for_A ([''A''] @ ''bad'' # [''B''])
     = (Inl (InvalidSolanaAddress ''bad''), [dex_request example_env ''A''])"
    using fetch_prices_dex_collects_rejections
      [where env = example_env and T = no_pairs_for_A and before = "[''A'']"
         and processed = "([], [''A''])" and sent_before = "[dex_request example_env ''A'']"
         and next_address = "''bad''" and later = "[''B'']"] 2
    by (simp add: example_env_simps del: fetch_prices_dex_loop.simps(2))
  from 1 2 3 4 fetch_prices_dex_example show ?thesis by simp
qed

text \<open>
  Claim C6 as stated has every address processed before any failure: with \<open>A\<close> without
  pairs and a 500 response for \<open>C\<close>, the operation fails at \<open>C\<close> with the bare
  \<open>InvalidTokens()\<close>; \<open>B\<close> is never requested and the rejection of \<open>A\<close> is lost.
\<close>

theorem fetch_prices_dex_fails_fast_on_non_200:
  "fetch_prices_dex example_env no_pairs_for_A [''A'', ''C'', ''B'']
   = (Inl (InvalidTokens None), [dex_request example_env ''A'', dex_request example_env ''C''])"
  by (simp add: fetch_prices_dex_def call_api_valid example_env_simps no_pairs_for_A_def
      by_url_def dex_request_def response_json_def)

section \<open>Upstream failures\<close>

text \<open>
  Claim C5, as the code has it. When the response to its request has a status other
  than 200, \<open>BirdEyeClient.fetch_prices\<close>, \<open>fetch_prices_dex\<close> (at whichever address
  receives that response, the addresses before it having been processed without error)
  and \<open>DexScreenerClient.fetch_token_overview\<close> fail with \<open>InvalidTokens()\<close>, which
  carries nothing and is what the spec calls UpstreamError, right after that request;
  \<open>BirdEyeClient.fetch_token_overview\<close> fails with \<open>InvalidTokens([address])\<close>.
\<close>

theorem non_200_response:
  assumes "status_code resp \<noteq> 200"
  shows "(token_addresses \<noteq> [] \<and> T [] (GET, fetch_prices_url env token_addresses) = Some resp
            \<longrightarrow> fetch_prices env T token_addresses
                 = (Inl UpstreamError, [(GET, fetch_prices_url env token_addresses)]))
       \<and> (is_solana_address env address \<and> address \<noteq> []
            \<and> fetch_prices_dex_loop env T before [] [] [] = (Inr processed, sent)
            \<and> T sent (dex_request env address) = Some resp
            \<longrightarrow> fetch_prices_dex env T (before @ address # rest)
                   = (Inl UpstreamError, sent @ [dex_request env address]))
       \<and> (is_solana_address env address \<and> address \<noteq> []
            \<and> T [] (dex_request env address) = Some resp
            \<longrightarrow> dex_fetch_token_overview env T address
                   = (Inl UpstreamError, [dex_request env address]))
       \<and> (is_solana_address env address \<and> T [] (GET, overview_url env address) = Some resp
            \<longrightarrow> fetch_token_overview env T address
                 = (Inl (InvalidTokens (Some [address])), [(GET, overview_url env address)]))"
proof -
  have 1: "token_addresses \<noteq> [] \<and> T [] (GET, fetch_prices_url env token_addresses) = Some resp
            \<longrightarrow> fetch_prices env T token_addresses
                 = (Inl UpstreamError, [(GET, fetch_prices_url env token_addresses)])"
    using assms by (simp add: fetch_prices_def make_api_call_GET send_def UpstreamError_def)
  have 2: "is_solana_address env address \<and> address \<noteq> []
            \<and> fetch_prices_dex_loop env T before [] [] [] = (Inr processed, sent)
            \<and> T sent (dex_request env address) = Some resp
            \<longrightarrow> fetch_prices_dex env T (before @ address # rest)
                   = (Inl UpstreamError, sent @ [dex_request env address])"
    using assms fetch_prices_dex_aborts[of env T before processed sent address rest resp]
    by (simp add: UpstreamError_def)
  have 3: "is_solana_address env address \<and> address \<noteq> []
            \<and> T [] (dex_request env address) = Some resp
            \<longrightarrow> dex_fetch_token_overview env T address
                   = (Inl UpstreamError, [dex_request env address])"
    using assms by (simp add: dex_fetch_token_overview_def call_api_valid UpstreamError_def)
  have 4: "is_solana_address env address \<and> T [] (GET, overview_url env address) = Some resp
            \<longrightarrow> fetch_token_overview env T address
                 = (Inl (InvalidTokens (Some [address])), [(GET, overview_url env address)])"
    using assms by (simp add: fetch_token_overview_def make_api_call_GET send_def)
  from 1 2 3 4 show ?thesis by blast
qed

theorem non_200_response_witness:
  "fetch_prices example_env (always 500 JNull) [''A'', ''B'']
     = (Inl UpstreamError, [(GET, fetch_prices_url example_env [''A'', ''B''])])
   \<and> fetch_prices_dex example_env (always 500 JNull) ([] @ ''A'' # [''B''])
     = (Inl UpstreamError, [] @ [dex_request example_env ''A''])
   \<and> dex_fetch_token_overview example_env (always 500 JNull) ''A''
     = (Inl UpstreamError, [dex_request example_env ''A''])
   \<and> fetch_token_overview example_env (always 500 JNull) ''A''
     = (Inl (InvalidTokens (Some [''A''])), [(GET, overview_url example_env ''A'')])
   \<and> fetch_prices_dex example_env no_pairs_for_A ([''A''] @ ''C'' # [''B''])
     = (Inl UpstreamError, [dex_request example_env ''A''] @ [dex_request example_env ''C''])"
proof -
  have 1: "fetch_prices example_env (always 500 JNull) [''A'', ''B'']
     = (Inl UpstreamError, [(GET, fetch_prices_url example_env [''A'', ''B''])])
   \<and> fetch_prices_dex example_env (always 500 JNull) ([] @ ''A'' # [''B''])
     = (Inl UpstreamError, [] @ [dex_request example_env ''A''])
   \<and> dex_fetch_token_overview example_env (always 500 JNull) ''A''
     = (Inl UpstreamError, [dex_request example_env ''A''])
   \<and> fetch_token_overview example_env (always 500 JNull) ''A''
     = (Inl (InvalidTokens (Some [''A''])), [(GET, overview_url example_env ''A'')])"
    using non_200_response
      [where resp = "\<lparr>status_code = 500, body = Some JNull\<rparr>"
         and token_addresses = "[''A'', ''B'']" and T = "always 500 JNull"
         and env = example_env and address = "''A''" and rest = "[''B'']"
         and before = "[]" and processed = "([], [])" and sent = "[]"]
    by (simp add: always_def example_env_def)
  have l: "fetch_prices_dex_loop example_env no_pairs_for_A [''A''] [] [] []
     = (Inr ([], [''A'']), [dex_request example_env ''A''])"
    by (simp add: fetch_prices_dex_loop_pairs dex_pairs_no_pairs_for_A example_env_simps
        del: fetch_prices_dex_loop.simps(2))
  have 2: "fetch_prices_dex example_env no_pairs_for_A ([''A''] @ ''C'' # [''B''])
     = (Inl UpstreamError, [dex_request example_env ''A''] @ [dex_request example_env ''C''])"
    using non_200_response
      [where resp = "\<lparr>status_code = 500, body = None\<rparr>"
         and T = no_pairs_for_A and env = example_env and address = "''C''"
         and rest = "[''B'']" and before = "[''A'']" and processed = "([], [''A''])"
         and sent = "[dex_request example_env ''A'']"] l
    by (simp add: example_env_simps no_pairs_for_A_def by_url_def dex_request_def
        del: fetch_prices_dex_loop.simps(2))
  from 1 2 show ?thesis by blast
qed

text \<open>
  Claim C5 as stated covers every fetch operation: on a 500 response the batch
  provider's overview fails with \<open>InvalidTokens([address])\<close>, the very error it raises
  when a 200 response has no data for the address, and not with the bare
  \<open>InvalidTokens()\<close>.
\<close>

theorem fetch_token_overview_non_200_carries_address:
  "fetch_token_overview example_env (always 500 JNull) ''A''
     = (Inl (InvalidTokens (Some [''A''])), [(GET, overview_url example_env ''A'')])
   \<and> fetch_token_overview example_env (always 200 (JObj [(''data'', JObj [])])) ''A''
     = (Inl (InvalidTokens (Some [''A''])), [(GET, overview_url example_env ''A'')])
   \<and> InvalidTokens (Some [''A'']) \<noteq> UpstreamError"
  by (simp add: fetch_token_overview_def make_api_call_GET send_def always_def
      overview_of_response_def response_json_def overview_of_token_data_def
      UpstreamError_def example_env_def)

section \<open>The validation gate\<close>

lemma fetch_prices_requests:
  "token_addresses \<noteq> [] \<Longrightarrow>
   snd (fetch_prices env T token_addresses) = [(GET, fetch_prices_url env token_addresses)]"
  by (simp add: fetch_prices_def make_api_call_GET send_def split: option.splits)

lemma Decimal_predicate:
  "Decimal (env\<lparr>is_solana_address := p\<rparr>) = Decimal env"
proof
  fix x
  show "Decimal (env\<lparr>is_solana_address := p\<rparr>) x = Decimal env x"
  proof (cases x)
    case (JFloat f)
    then show ?thesis by (cases f) simp_all
  qed simp_all
qed

lemma fetch_prices_loop_predicate:
  "fetch_prices_loop (env\<lparr>is_solana_address := p\<rparr>) items price_details invalid
   = fetch_prices_loop env items price_details invalid"
proof (induction items arbitrary: price_details invalid)
  case Nil
  show ?case by simp
next
  case (Cons item items)
  have d: "price_info_of_details (env\<lparr>is_solana_address := p\<rparr>) x
           = price_info_of_details env x" for x
    by (simp add: price_info_of_details_def Decimal_predicate)
  show ?case
    by (cases item) (simp add: d Cons.IH split: sum.splits bool.splits)
qed

lemma fetch_prices_predicate:
  "fetch_prices (env\<lparr>is_solana_address := p\<rparr>) T token_addresses
   = fetch_prices env T token_addresses"
proof -
  have "prices_of_response (env\<lparr>is_solana_address := p\<rparr>) r = prices_of_response env r" for r
    by (simp add: prices_of_response_def fetch_prices_loop_predicate)
  then show ?thesis
    by (simp add: fetch_prices_def fetch_prices_url_def split: prod.splits sum.splits)
qed

text \<open>
  Claim C2, as the code has it. Both price fetches fail with \<open>NoPositionsError\<close> on an
  empty list, and both overviews fail with \<open>InvalidSolanaAddress(address)\<close> on an
  address the predicate rejects, in each case without any request. \<open>fetch_prices_dex\<close>
  checks each address when its turn comes: after addresses processed without error, an
  address the predicate rejects makes it fail with \<open>InvalidSolanaAddress\<close> carrying that
  address, and the empty string with \<open>NoPositionsError\<close>, without a request for it or
  for a later address. Whatever it returns, it has requested a prefix of its addresses,
  all of them accepted and non-empty, and it fails whenever some address is rejected.
  \<open>BirdEyeClient.fetch_prices\<close> checks emptiness only: for a non-empty list it makes its
  one request, and its result is the same whatever the predicate says.
\<close>

theorem validation_gate:
  "fetch_prices env T [] = (Inl NoPositionsError, [])
   \<and> fetch_prices_dex env T [] = (Inl NoPositionsError, [])
   \<and> (\<not> is_solana_address env address
      \<longrightarrow> fetch_token_overview env T address = (Inl (InvalidSolanaAddress address), [])
        \<and> dex_fetch_token_overview env T address = (Inl (InvalidSolanaAddress address), []))
   \<and> (fetch_prices_dex_loop env T before [] [] [] = (Inr processed, sent)
        \<and> \<not> is_solana_address env address \<and> address \<noteq> []
      \<longrightarrow> fetch_prices_dex env T (before @ address # rest)
            = (Inl (InvalidSolanaAddress address), sent)
        \<and> sent = map (dex_request env) before)
   \<and> (fetch_prices_dex_loop env T before [] [] [] = (Inr processed, sent)
      \<longrightarrow> fetch_prices_dex env T (before @ [] # rest) = (Inl NoPositionsError, sent))
   \<and> (\<exists>k\<le>length token_addresses.
        snd (fetch_prices_dex env T token_addresses)
          = map (dex_request env) (take k token_addresses)
      \<and> (\<forall>a\<in>set (take k token_addresses). is_solana_address env a \<and> a \<noteq> []))
   \<and> ((\<exists>a\<in>set token_addresses. \<not> is_solana_address env a)
      \<longrightarrow> (\<exists>e. fst (fetch_prices_dex env T token_addresses) = Inl e))
   \<and> (token_addresses \<noteq> []
      \<longrightarrow> snd (fetch_prices env T token_addresses)
            = [(GET, fetch_prices_url env token_addresses)])
   \<and> fetch_prices (env\<lparr>is_solana_address := p\<rparr>) T token_addresses
       = fetch_prices env T token_addresses"
proof -
  have 1: "fetch_prices env T [] = (Inl NoPositionsError, [])"
    by (simp add: fetch_prices_def)
  have 2: "fetch_prices_dex env T [] = (Inl NoPositionsError, [])"
    by (simp add: fetch_prices_dex_def)
  have 3: "\<not> is_solana_address env address
      \<longrightarrow> fetch_token_overview env T address = (Inl (InvalidSolanaAddress address), [])
        \<and> dex_fetch_token_overview env T address = (Inl (InvalidSolanaAddress address), [])"
    by (simp add: fetch_token_overview_def dex_fetch_token_overview_def)
  have 4: "fetch_prices_dex env T (before @ address # rest)
            = (Inl (InvalidSolanaAddress address), sent)
        \<and> sent = map (dex_request env) before"
    if h: "fetch_prices_dex_loop env T before [] [] [] = (Inr processed, sent)
        \<and> \<not> is_solana_address env address \<and> address \<noteq> []"
  proof -
    obtain ps inv where p: "processed = (ps, inv)" by (cases processed)
    from h p fetch_prices_dex_loop_Inr[of env T before "[]" "[]" "[]" ps inv sent]
    have "sent = map (dex_request env) before" by simp
    moreover from h fetch_prices_dex_aborts[of env T before processed sent address rest]
    have "fetch_prices_dex env T (before @ address # rest)
            = (Inl (InvalidSolanaAddress address), sent)" by simp
    ultimately show ?thesis by simp
  qed
  have 5: "fetch_prices_dex env T (before @ [] # rest) = (Inl NoPositionsError, sent)"
    if h: "fetch_prices_dex_loop env T before [] [] [] = (Inr processed, sent)"
    using fetch_prices_dex_aborts[OF h, of "[]" rest] by simp
  obtain r s where l: "fetch_prices_dex_loop env T token_addresses [] [] [] = (r, s)"
    by (cases "fetch_prices_dex_loop env T token_addresses [] [] []")
  from fetch_prices_dex_loop_sent[OF l] obtain k where k: "k \<le> length token_addresses"
    "s = map (dex_request env) (take k token_addresses)"
    "\<forall>b\<in>set (take k token_addresses). is_solana_address env b \<and> b \<noteq> []"
    "(\<exists>a\<in>set token_addresses. \<not> is_solana_address env a) \<longrightarrow> (\<exists>e. r = Inl e)" by auto
  have s: "snd (fetch_prices_dex env T token_addresses) = (if token_addresses = [] then [] else s)"
    using l by (auto simp: fetch_prices_dex_def split: sum.splits prod.splits)
  have f: "(\<exists>e. r = Inl e) \<longrightarrow> (\<exists>e. fst (fetch_prices_dex env T token_addresses) = Inl e)"
    using l by (auto simp: fetch_prices_dex_def)
  have 6: "\<exists>k\<le>length token_addresses.
        snd (fetch_prices_dex env T token_addresses)
          = map (dex_request env) (take k token_addresses)
      \<and> (\<forall>a\<in>set (take k token_addresses). is_solana_address env a \<and> a \<noteq> [])"
    using k s by (intro exI[of _ k]) auto
  have 7: "(\<exists>a\<in>set token_addresses. \<not> is_solana_address env a)
      \<longrightarrow> (\<exists>e. fst (fetch_prices_dex env T token_addresses) = Inl e)"
    using k(4) f by blast
  note 8 = fetch_prices_requests[of token_addresses env T]
  note 9 = fetch_prices_predicate[where env = env and p = p and T = T
        and token_addresses = token_addresses]
  from 1 2 3 4 5 6 7 8 9 show ?thesis by blast
qed

theorem validation_gate_witness:
  "fetch_token_overview example_env no_pairs_for_A ''bad''
     = (Inl (InvalidSolanaAddress ''bad''), [])
   \<and> dex_fetch_token_overview example_env no_pairs_for_A ''bad''
     = (Inl (InvalidSolanaAddress ''bad''), [])
   \<and> fetch_prices_dex example_env no_pairs_for_A ([''A''] @ ''bad'' # [''B''])
     = (Inl (InvalidSolanaAddress ''bad''), [dex_request example_env ''A''])
   \<and> fetch_prices example_env no_pairs_for_A [] = (Inl NoPositionsError, [])
   \<and> (\<exists>e. fst (fetch_prices_dex example_env no_pairs_for_A [''A'', ''bad'']) = Inl e)
   \<and> snd (fetch_prices example_env no_pairs_for_A [''bad''])
     = [(GET, fetch_prices_url example_env [''bad''])]"
proof -
  have l: "fetch_prices_dex_loop example_env no_pairs_for_A [''A''] [] [] []
     = (Inr ([], [''A'']), [dex_request example_env ''A''])"
    by (simp add: fetch_prices_dex_loop_pairs dex_pairs_no_pairs_for_A example_env_simps
        del: fetch_prices_dex_loop.simps(2))
  show ?thesis
    using validation_gate
      [where env = example_env and T = no_pairs_for_A and address = "''bad''"
         and rest = "[''B'']" and before = "[''A'']" and processed = "([], [''A''])"
         and sent = "[dex_request example_env ''A'']"
         and token_addresses = "[''A'', ''bad'']"]
      validation_gate
      [where env = example_env and T = no_pairs_for_A and token_addresses = "[''bad'']"]
      l
    by (simp add: example_env_simps del: fetch_prices_dex_loop.simps(2))
qed

text \<open>
  Claim C2 as stated has every address validated before any request.
  \<open>BirdEyeClient.fetch_prices\<close> checks emptiness only: it requests the rejected address
  \<open>bad\<close> and returns its price. \<open>fetch_prices_dex\<close> validates each address when its turn
  comes: it has already requested \<open>A\<close> when it rejects \<open>bad\<close>.
\<close>

theorem fetch_prices_requests_unvalidated_address:
  "\<not> is_solana_address example_env ''bad''
   \<and> fetch_prices example_env (always 200 (one_token ''bad'' (JInt 1) (JInt 2))) [''bad'']
     = (Inr [(''bad'', PriceInfo (Dec 1) (Some (Dec 2)))],
        [(GET, fetch_prices_url example_env [''bad''])])
   \<and> fetch_prices_dex example_env no_pairs_for_A [''A'', ''bad'']
     = (Inl (InvalidSolanaAddress ''bad''), [dex_request example_env ''A''])"
  by (simp add: fetch_prices_def make_api_call_GET send_def always_def one_token_def
      prices_of_response_def response_json_def has_value_and_liquidity_def
      price_info_of_details_def example_env_simps
      fetch_prices_dex_def call_api_valid call_api_invalid
      no_pairs_for_A_def by_url_def dex_request_def)

end
